theory Spec2Isabelle
  imports Complex_Main
begin

section \<open>Python values, exceptions and strings\<close>

text \<open>
  The exception classes the modelled code raises or catches. Only the class is modelled,
  not the message text. A function that can raise returns \<open>exn + 'a\<close>, with \<open>Inl\<close>
  for the raised exception.
\<close>

datatype exn = ValueError | TypeError | AttributeError | JSONDecodeError | AIServiceError

text \<open>
  The values \<open>json.loads\<close> produces: \<open>None\<close>, \<open>bool\<close>, \<open>int\<close>, \<open>float\<close>, \<open>str\<close>,
  \<open>list\<close> and \<open>dict\<close>. A \<open>dict\<close> is an association list in insertion order whose keys
  are looked up with \<open>map_of\<close>. A float is modelled by the real number it
  stands for; infinities and NaN are outside the model.
\<close>

datatype pyval =
    PNone
  | PBool bool
  | PInt int
  | PFloat real
  | PStr string
  | PList "pyval list"
  | PDict "(string \<times> pyval) list"

type_synonym datetime = nat

text \<open>
  The arithmetic of floats. A float operation returns the exact result rounded to a
  float, and a decimal literal such as \<open>0.1\<close> stands for the float nearest to it. The
  rounded operations and the value of a literal are the fields of an \<open>arith\<close>, which
  the functions that compute on floats take as a parameter: \<open>flit\<close> is the float of a
  decimal literal, \<open>fadd\<close>, \<open>fsub\<close>, \<open>fmul\<close> and \<open>fdiv\<close> are \<open>+\<close>, \<open>-\<close>, \<open>*\<close>
  and \<open>/\<close> on floats. Nothing is assumed of them. The literals \<open>0.0\<close>, \<open>12.0\<close> and
  \<open>100\<close> and the integers the code converts to floats are floats as they are.
  Comparisons, \<open>min\<close> and \<open>max\<close> are exact on floats.
\<close>

record arith =
  flit :: "real \<Rightarrow> real"
  fadd :: "real \<Rightarrow> real \<Rightarrow> real"
  fsub :: "real \<Rightarrow> real \<Rightarrow> real"
  fmul :: "real \<Rightarrow> real \<Rightarrow> real"
  fdiv :: "real \<Rightarrow> real \<Rightarrow> real"

text \<open>
  The arithmetic with no rounding at all. The constants \<open>total_experience_years\<close> and
  \<open>apply_business_rules\<close> below are the code run on this arithmetic; what is proved of
  them holds of the code on floats only where it does not depend on rounding.
\<close>

definition exact_arith :: arith where
  "exact_arith =
     \<lparr> flit = (\<lambda>x. x), fadd = (\<lambda>x y. x + y), fsub = (\<lambda>x y. x - y),
       fmul = (\<lambda>x y. x * y), fdiv = (\<lambda>x y. x / y) \<rparr>"

text \<open>
  A string is a list of characters with the code points 0 to 255 (Latin-1); text with
  other characters is outside the model. On these characters \<open>str.lower\<close> changes the
  letters \<open>A\<close> to \<open>Z\<close> and the code points \<open>0xC0\<close> to \<open>0xDE\<close> other than \<open>0xD7\<close>
  (the multiplication sign): it adds 32 to the code point, which sets the bit of value 32.
  Every other character is left as it is.
\<close>

definition upper_letters :: "char list" where
  "upper_letters =
     ''ABCDEFGHIJKLMNOPQRSTUVWXYZ''
     @ [CHR 0xC0, CHR 0xC1, CHR 0xC2, CHR 0xC3, CHR 0xC4, CHR 0xC5, CHR 0xC6, CHR 0xC7,
        CHR 0xC8, CHR 0xC9, CHR 0xCA, CHR 0xCB, CHR 0xCC, CHR 0xCD, CHR 0xCE, CHR 0xCF,
        CHR 0xD0, CHR 0xD1, CHR 0xD2, CHR 0xD3, CHR 0xD4, CHR 0xD5, CHR 0xD6,
        CHR 0xD8, CHR 0xD9, CHR 0xDA, CHR 0xDB, CHR 0xDC, CHR 0xDD, CHR 0xDE]"

definition lower_char :: "char \<Rightarrow> char" where
  "lower_char c =
     (if c \<in> set upper_letters
      then (case c of Char b0 b1 b2 b3 b4 b5 b6 b7 \<Rightarrow> Char b0 b1 b2 b3 b4 True b6 b7)
      else c)"

definition str_lower :: "string \<Rightarrow> string" where
  "str_lower s = map lower_char s"

text \<open>
  The characters \<open>str.strip()\<close> removes, those for which \<open>str.isspace\<close> holds: tab,
  line feed, vertical tab, form feed, carriage return, the separators 28 to 31, space,
  next line (\<open>0x85\<close>) and no-break space (\<open>0xA0\<close>).
\<close>

definition py_isspace :: "char \<Rightarrow> bool" where
  "py_isspace c =
     (c \<in> {CHR 0x09, CHR 0x0A, CHR 0x0B, CHR 0x0C, CHR 0x0D,
           CHR 0x1C, CHR 0x1D, CHR 0x1E, CHR 0x1F, CHR 0x20, CHR 0x85, CHR 0xA0})"

definition str_strip :: "string \<Rightarrow> string" where
  "str_strip s = rev (dropWhile py_isspace (rev (dropWhile py_isspace s)))"

text \<open>\<open>s.find(c)\<close>: the index of the first occurrence of \<open>c\<close>, or \<open>-1\<close>.\<close>

fun str_find :: "string \<Rightarrow> char \<Rightarrow> int" where
  "str_find [] c = -1"
| "str_find (x # xs) c =
     (if x = c then 0
      else (let r = str_find xs c in if r = -1 then -1 else r + 1))"

text \<open>\<open>s.rfind(c)\<close>: the index of the last occurrence of \<open>c\<close>, or \<open>-1\<close>.\<close>

definition str_rfind :: "string \<Rightarrow> char \<Rightarrow> int" where
  "str_rfind s c =
     (let r = str_find (rev s) c
      in if r = -1 then -1 else int (length s) - 1 - r)"

text \<open>\<open>s[i:j]\<close> for \<open>i\<close>, \<open>j\<close> that are not negative: empty when \<open>j \<le> i\<close>.\<close>

definition str_slice :: "string \<Rightarrow> int \<Rightarrow> int \<Rightarrow> string" where
  "str_slice s i j = drop (nat i) (take (nat j) s)"

text \<open>\<open>sep.join(xs)\<close>.\<close>

fun str_join :: "string \<Rightarrow> string list \<Rightarrow> string" where
  "str_join sep [] = []"
| "str_join sep [x] = x"
| "str_join sep (x # y # ys) = x @ sep @ str_join sep (y # ys)"

text \<open>
  Truthiness of an \<open>Optional[List[...]]\<close> field: \<open>None\<close> and the empty list are false.
\<close>

definition truthy_list :: "'a list option \<Rightarrow> bool" where
  "truthy_list v = (case v of None \<Rightarrow> False | Some xs \<Rightarrow> xs \<noteq> [])"

section \<open>Domain entities\<close>

text \<open>
  The dataclasses of \<open>src/domain/entities\<close>, with the field types of their annotations.
  The field \<open>id\<close> is named \<open>ident\<close>. Fields of the same name in several classes are told
  apart by the class name, as in \<open>Skill.name\<close> and \<open>CV.name\<close>.
\<close>

datatype MatchStatus = PENDING | IN_PROGRESS | COMPLETED | FAILED

datatype SkillLevel = BEGINNER | INTERMEDIATE | ADVANCED | EXPERT

record Skill =
  name :: string
  level :: SkillLevel
  years_experience :: "int option"
  category :: "string option"

record Education =
  degree :: string
  institution :: string
  field_of_study :: string
  graduation_year :: "int option"
  gpa :: "real option"

record Experience =
  position :: string
  company :: string
  duration_months :: int
  description :: string
  skills_used :: "string list"
  start_date :: "datetime option"
  end_date :: "datetime option"

record CV =
  ident :: "string option"
  filename :: string
  raw_text :: string
  name :: "string option"
  email :: "string option"
  phone :: "string option"
  location :: "string option"
  skills :: "Skill list option"
  education :: "Education list option"
  experience :: "Experience list option"
  certifications :: "string list option"
  languages :: "string list option"
  created_at :: "datetime option"
  updated_at :: "datetime option"

record JobRequirement =
  skill :: string
  required_level :: SkillLevel
  is_mandatory :: bool
  weight :: real

record Job =
  ident :: "string option"
  title :: string
  company :: string
  description :: string
  required_skills :: "JobRequirement list option"
  preferred_skills :: "JobRequirement list option"
  min_experience_years :: int
  required_education :: "string list option"
  required_certifications :: "string list option"
  location :: "string option"
  salary_range :: "string option"
  created_at :: "datetime option"
  updated_at :: "datetime option"

record SkillMatch =
  skill_name :: string
  cv_has_skill :: bool
  cv_skill_level :: "SkillLevel option"
  required_level :: "SkillLevel option"
  match_score :: real
  gap_analysis :: "string option"

record MatchAnalysis =
  cv_id :: string
  job_id :: string
  overall_score :: real
  skills_score :: real
  experience_score :: real
  education_score :: real
  skill_matches :: "SkillMatch list option"
  missing_skills :: "string list option"
  matching_skills :: "string list option"
  experience_gap_years :: real
  recommendations :: "string list option"
  interview_tips :: "string list option"
  analysis_date :: "datetime option"
  ai_model_used :: "string option"

record Match =
  ident :: "string option"
  cv_id :: string
  job_id :: string
  status :: MatchStatus
  analysis :: "MatchAnalysis option"
  error_message :: "string option"
  created_at :: "datetime option"
  completed_at :: "datetime option"
  processing_time_seconds :: "real option"

subsection \<open>Construction\<close>

text \<open>
  A dataclass is constructed by storing the arguments in the fields and then running
  \<open>__post_init__\<close>. An omitted list argument takes its default \<open>None\<close>, so the record of
  the arguments has \<open>None\<close> there. The functions below are \<open>__post_init__\<close>; the
  constructed entity is their result on the record of the arguments.
\<close>

definition default_list :: "'a list option \<Rightarrow> 'a list option" where
  "default_list v = (if v = None then Some [] else v)"

definition CV_post_init :: "CV \<Rightarrow> CV" where
  "CV_post_init self =
     self\<lparr> skills := default_list (skills self),
           education := default_list (education self),
           experience := default_list (experience self),
           certifications := default_list (certifications self),
           languages := default_list (languages self) \<rparr>"

definition Job_post_init :: "Job \<Rightarrow> Job" where
  "Job_post_init self =
     self\<lparr> required_skills := default_list (required_skills self),
           preferred_skills := default_list (preferred_skills self),
           required_education := default_list (required_education self),
           required_certifications := default_list (required_certifications self) \<rparr>"

definition MatchAnalysis_post_init :: "MatchAnalysis \<Rightarrow> MatchAnalysis" where
  "MatchAnalysis_post_init self =
     self\<lparr> skill_matches := default_list (skill_matches self),
           missing_skills := default_list (missing_skills self),
           matching_skills := default_list (matching_skills self),
           recommendations := default_list (recommendations self),
           interview_tips := default_list (interview_tips self) \<rparr>"

subsection \<open>Derived properties\<close>

text \<open>
  \<open>total_experience_years\<close>: \<open>sum(...) / 12.0\<close> divides the float of the sum.
\<close>

definition total_experience_years_ar :: "arith \<Rightarrow> CV \<Rightarrow> real" where
  "total_experience_years_ar ar self =
     (case experience self of
        None \<Rightarrow> 0
      | Some exps \<Rightarrow>
          if exps = [] then 0
          else fdiv ar (real_of_int (sum_list (map duration_months exps))) 12)"

definition total_experience_years :: "CV \<Rightarrow> real" where
  "total_experience_years = total_experience_years_ar exact_arith"

definition skill_names :: "CV \<Rightarrow> string list" where
  "skill_names self =
     (case skills self of
        None \<Rightarrow> []
      | Some sks \<Rightarrow> if sks \<noteq> [] then map Skill.name sks else [])"

definition all_required_skill_names :: "Job \<Rightarrow> string list" where
  "all_required_skill_names self =
     (case required_skills self of
        None \<Rightarrow> []
      | Some reqs \<Rightarrow> if reqs \<noteq> [] then map skill reqs else [])"

definition mandatory_skills :: "Job \<Rightarrow> JobRequirement list" where
  "mandatory_skills self =
     (case required_skills self of
        None \<Rightarrow> []
      | Some reqs \<Rightarrow> if reqs \<noteq> [] then filter is_mandatory reqs else [])"

definition is_completed :: "Match \<Rightarrow> bool" where
  "is_completed self = (status self = COMPLETED \<and> analysis self \<noteq> None)"

definition recommendation_level :: "Match \<Rightarrow> string" where
  "recommendation_level self =
     (case analysis self of
        None \<Rightarrow> ''Unknown''
      | Some a \<Rightarrow>
          (let score = overall_score a
           in if score \<ge> 80 then ''Highly Recommended''
              else if score \<ge> 60 then ''Recommended''
              else if score \<ge> 40 then ''Consider with Caution''
              else ''Not Recommended''))"

section \<open>Domain services\<close>

subsection \<open>MatchingService\<close>

text \<open>
  \<open>_generate_recommendations\<close>. The format \<open>{x:.1f}\<close> of a float is the parameter
  \<open>fmt\<close>.
\<close>

definition generate_recommendations ::
  "(real \<Rightarrow> string) \<Rightarrow> CV \<Rightarrow> Job \<Rightarrow> MatchAnalysis \<Rightarrow> string list" where
  "generate_recommendations fmt cv job an =
     (let r1 = (case missing_skills an of
                  None \<Rightarrow> []
                | Some ms \<Rightarrow>
                    if ms \<noteq> [] then [''Consider learning: '' @ str_join '', '' (take 3 ms)]
                    else []);
          r2 = (if experience_gap_years an > 0
                then r1 @ [''Gain '' @ fmt (experience_gap_years an)
                           @ '' more years of relevant experience'']
                else r1)
      in if truthy_list (required_education job) \<and> truthy_list (education cv)
         then (let cv_degrees = map (\<lambda>edu. str_lower (degree edu)) (the (education cv));
                   missing_education =
                     filter (\<lambda>edu. str_lower edu \<notin> set cv_degrees) (the (required_education job))
               in case missing_education of
                    [] \<Rightarrow> r2
                  | first # _ \<Rightarrow> r2 @ [''Consider pursuing: '' @ first])
         else r2)"

text \<open>
  \<open>_apply_business_rules\<close>, on the arithmetic \<open>ar\<close>. The analysis is mutated in place
  and returned; the model returns the updated record.
  \<open>analysis.recommendations.extend\<close> raises \<open>AttributeError\<close> when the field holds
  \<open>None\<close>.
\<close>

definition apply_business_rules_ar ::
  "arith \<Rightarrow> (real \<Rightarrow> string) \<Rightarrow> MatchAnalysis \<Rightarrow> CV \<Rightarrow> Job \<Rightarrow> exn + MatchAnalysis" where
  "apply_business_rules_ar ar fmt an cv job =
     (let mandatory = map skill (mandatory_skills job);
          missing_mandatory = filter (\<lambda>s. s \<notin> set (skill_names cv)) mandatory;
          a1 = (if missing_mandatory \<noteq> []
                then (let penalty = fmul ar (real (length missing_mandatory)) (flit ar (1 / 10))
                      in an\<lparr>overall_score :=
                             max 0 (fsub ar (overall_score an) (fmul ar penalty 100))\<rparr>)
                else an);
          a2 = (if total_experience_years_ar ar cv \<ge> real_of_int (min_experience_years job)
                then (let exp_diff = fsub ar (total_experience_years_ar ar cv)
                                       (real_of_int (min_experience_years job));
                          boost = min (flit ar (1 / 10)) (fmul ar exp_diff (flit ar (2 / 100)))
                      in a1\<lparr>overall_score :=
                             min 100 (fadd ar (overall_score a1) (fmul ar boost 100))\<rparr>)
                else a1)
      in case recommendations a2 of
           None \<Rightarrow> Inl AttributeError
         | Some recs \<Rightarrow>
             Inr (a2\<lparr>recommendations := Some (recs @ generate_recommendations fmt cv job a2)\<rparr>))"

definition apply_business_rules ::
  "(real \<Rightarrow> string) \<Rightarrow> MatchAnalysis \<Rightarrow> CV \<Rightarrow> Job \<Rightarrow> exn + MatchAnalysis" where
  "apply_business_rules = apply_business_rules_ar exact_arith"

subsection \<open>ValidationService\<close>

definition validate_cv :: "CV \<Rightarrow> string list" where
  "validate_cv cv =
     (let errors = [];
          errors = (if str_strip (raw_text cv) = [] then errors @ [''CV must contain text content'']
                    else errors);
          errors = (if filename cv = [] then errors @ [''CV must have a filename'']
                    else errors)
      in errors)"

definition validate_job :: "Job \<Rightarrow> string list" where
  "validate_job job =
     (let errors = [];
          errors = (if str_strip (title job) = [] then errors @ [''Job must have a title'']
                    else errors);
          errors = (if str_strip (Job.description job) = []
                    then errors @ [''Job must have a description'']
                    else errors);
          errors = (if min_experience_years job < 0
                    then errors @ [''Minimum experience years cannot be negative'']
                    else errors)
      in errors)"

text \<open>
  \<open>validate_match_request\<close>: \<open>not cv_id or not cv_id.strip()\<close> also accepts \<open>None\<close>, so
  the identifiers are optional strings. \<open>not v\<close> holds of \<open>None\<close> and of the empty
  string.
\<close>

definition validate_match_request :: "string option \<Rightarrow> string option \<Rightarrow> string list" where
  "validate_match_request cvid jobid =
     (let errors = [];
          errors = (if (case cvid of None \<Rightarrow> True | Some s \<Rightarrow> s = [] \<or> str_strip s = [])
                    then errors @ [''CV ID is required''] else errors);
          errors = (if (case jobid of None \<Rightarrow> True | Some s \<Rightarrow> s = [] \<or> str_strip s = [])
                    then errors @ [''Job ID is required''] else errors)
      in errors)"

section \<open>Converters of the AI service\<close>

text \<open>
  The dataclasses do not check their annotations: a converter stores in a field whatever
  value the payload holds. The records below are the same classes as the converters fill
  them: a field that receives a payload value unchecked has the type \<open>pyval\<close>
  (\<open>PNone\<close> for \<open>None\<close>).
\<close>

record Skill_dyn =
  name :: pyval
  level :: SkillLevel
  years_experience :: pyval
  category :: pyval

record Education_dyn =
  degree :: pyval
  institution :: pyval
  field_of_study :: pyval
  graduation_year :: pyval
  gpa :: pyval

record Experience_dyn =
  position :: pyval
  company :: pyval
  duration_months :: pyval
  description :: pyval
  skills_used :: pyval
  start_date :: "datetime option"
  end_date :: "datetime option"

record CV_dyn =
  ident :: pyval
  filename :: string
  raw_text :: string
  name :: pyval
  email :: pyval
  phone :: pyval
  location :: pyval
  skills :: "Skill_dyn list"
  education :: "Education_dyn list"
  experience :: "Experience_dyn list"
  certifications :: pyval
  languages :: pyval
  created_at :: "datetime option"
  updated_at :: "datetime option"

record JobRequirement_dyn =
  skill :: pyval
  required_level :: SkillLevel
  is_mandatory :: pyval
  weight :: pyval

record Job_dyn =
  ident :: pyval
  title :: pyval
  company :: pyval
  description :: string
  required_skills :: "JobRequirement_dyn list"
  preferred_skills :: "JobRequirement_dyn list"
  min_experience_years :: pyval
  required_education :: pyval
  required_certifications :: pyval
  location :: pyval
  salary_range :: pyval
  created_at :: "datetime option"
  updated_at :: "datetime option"

record SkillMatch_dyn =
  skill_name :: pyval
  cv_has_skill :: pyval
  cv_skill_level :: "SkillLevel option"
  required_level :: "SkillLevel option"
  match_score :: pyval
  gap_analysis :: pyval

record MatchAnalysis_dyn =
  cv_id :: string
  job_id :: string
  overall_score :: pyval
  skills_score :: pyval
  experience_score :: pyval
  education_score :: pyval
  skill_matches :: "SkillMatch_dyn list"
  missing_skills :: pyval
  matching_skills :: pyval
  experience_gap_years :: pyval
  recommendations :: pyval
  interview_tips :: pyval
  analysis_date :: "datetime option"
  ai_model_used :: "string option"

subsection \<open>Operations on payload values\<close>

text \<open>\<open>d.get(key, default)\<close> on a \<open>dict\<close>.\<close>

definition dict_get :: "(string \<times> pyval) list \<Rightarrow> string \<Rightarrow> pyval \<Rightarrow> pyval" where
  "dict_get d key dflt = (case map_of d key of None \<Rightarrow> dflt | Some v \<Rightarrow> v)"

text \<open>\<open>v.lower()\<close>: only a \<open>str\<close> has the method.\<close>

definition py_lower :: "pyval \<Rightarrow> exn + string" where
  "py_lower v = (case v of PStr s \<Rightarrow> Inr (str_lower s) | _ \<Rightarrow> Inl AttributeError)"

text \<open>
  \<open>for x in v\<close>: a list gives its elements, a \<open>str\<close> its characters, a \<open>dict\<close> its
  keys; every other value raises \<open>TypeError\<close>.
\<close>

definition py_iter :: "pyval \<Rightarrow> exn + pyval list" where
  "py_iter v =
     (case v of
        PList xs \<Rightarrow> Inr xs
      | PStr s \<Rightarrow> Inr (map (\<lambda>c. PStr [c]) s)
      | PDict d \<Rightarrow> Inr (map (\<lambda>kv. PStr (fst kv)) d)
      | _ \<Rightarrow> Inl TypeError)"

text \<open>Truthiness of a payload value.\<close>

definition py_truthy :: "pyval \<Rightarrow> bool" where
  "py_truthy v =
     (case v of
        PNone \<Rightarrow> False
      | PBool b \<Rightarrow> b
      | PInt i \<Rightarrow> i \<noteq> 0
      | PFloat r \<Rightarrow> r \<noteq> 0
      | PStr s \<Rightarrow> s \<noteq> []
      | PList xs \<Rightarrow> xs \<noteq> []
      | PDict d \<Rightarrow> d \<noteq> [])"

text \<open>\<open>__post_init__\<close> on a field that holds a payload value: \<open>None\<close> becomes \<open>[]\<close>.\<close>

definition default_list_dyn :: "pyval \<Rightarrow> pyval" where
  "default_list_dyn v = (if v = PNone then PList [] else v)"

definition valid_levels :: "string list" where
  "valid_levels = [''beginner'', ''intermediate'', ''advanced'', ''expert'']"

text \<open>\<open>SkillLevel(s)\<close>: the member with the value \<open>s\<close>, or \<open>ValueError\<close>.\<close>

definition SkillLevel_of :: "string \<Rightarrow> exn + SkillLevel" where
  "SkillLevel_of s =
     (if s = ''beginner'' then Inr BEGINNER
      else if s = ''intermediate'' then Inr INTERMEDIATE
      else if s = ''advanced'' then Inr ADVANCED
      else if s = ''expert'' then Inr EXPERT
      else Inl ValueError)"

text \<open>
  The two shapes of loop in the converters. \<open>for_each_try\<close> is a loop whose body stands
  in \<open>try: ... except (ValueError, TypeError): continue\<close>: these two exceptions drop the
  element, every other one leaves the loop. \<open>for_each\<close> is a loop with no \<open>try\<close>: the
  first exception leaves the loop.
\<close>

fun for_each_try :: "(pyval \<Rightarrow> exn + 'a) \<Rightarrow> pyval list \<Rightarrow> 'a list \<Rightarrow> exn + 'a list" where
  "for_each_try body [] acc = Inr acc"
| "for_each_try body (x # xs) acc =
     (case body x of
        Inr y \<Rightarrow> for_each_try body xs (acc @ [y])
      | Inl e \<Rightarrow>
          if e = ValueError \<or> e = TypeError then for_each_try body xs acc
          else Inl e)"

fun for_each :: "(pyval \<Rightarrow> exn + 'a) \<Rightarrow> pyval list \<Rightarrow> 'a list \<Rightarrow> exn + 'a list" where
  "for_each body [] acc = Inr acc"
| "for_each body (x # xs) acc =
     (case body x of
        Inr y \<Rightarrow> for_each body xs (acc @ [y])
      | Inl e \<Rightarrow> Inl e)"

subsection \<open>convert_to_cv_entity\<close>

text \<open>
  The body of the loop over \<open>data.get("skills", [])\<close>. The first operation on
  \<open>skill_data\<close> is \<open>.get\<close>, which only a \<open>dict\<close> has.
\<close>

definition convert_skill :: "pyval \<Rightarrow> exn + Skill_dyn" where
  "convert_skill skill_data =
     (case skill_data of
        PDict d \<Rightarrow>
          (case py_lower (dict_get d ''level'' (PStr ''beginner'')) of
             Inl e \<Rightarrow> Inl e
           | Inr level_str \<Rightarrow>
               (let level_str = (if level_str \<notin> set valid_levels then ''beginner'' else level_str)
                in case SkillLevel_of level_str of
                     Inl e \<Rightarrow> Inl e
                   | Inr lvl \<Rightarrow>
                       Inr \<lparr> Skill_dyn.name = dict_get d ''name'' (PStr []),
                             level = lvl,
                             years_experience = dict_get d ''years_experience'' PNone,
                             category = dict_get d ''category'' PNone \<rparr>))
      | _ \<Rightarrow> Inl AttributeError)"

definition convert_education :: "pyval \<Rightarrow> exn + Education_dyn" where
  "convert_education edu_data =
     (case edu_data of
        PDict d \<Rightarrow>
          Inr \<lparr> Education_dyn.degree = dict_get d ''degree'' (PStr []),
                institution = dict_get d ''institution'' (PStr []),
                field_of_study = dict_get d ''field_of_study'' (PStr []),
                graduation_year = dict_get d ''graduation_year'' PNone,
                gpa = PNone \<rparr>
      | _ \<Rightarrow> Inl AttributeError)"

definition convert_experience :: "pyval \<Rightarrow> exn + Experience_dyn" where
  "convert_experience exp_data =
     (case exp_data of
        PDict d \<Rightarrow>
          Inr \<lparr> Experience_dyn.position = dict_get d ''position'' (PStr []),
                company = dict_get d ''company'' (PStr []),
                duration_months = dict_get d ''duration_months'' (PInt 0),
                description = dict_get d ''description'' (PStr []),
                skills_used = dict_get d ''skills_used'' (PList []),
                start_date = None,
                end_date = None \<rparr>
      | _ \<Rightarrow> Inl AttributeError)"

definition CV_dyn_post_init :: "CV_dyn \<Rightarrow> CV_dyn" where
  "CV_dyn_post_init self =
     self\<lparr> CV_dyn.certifications := default_list_dyn (CV_dyn.certifications self),
           CV_dyn.languages := default_list_dyn (CV_dyn.languages self) \<rparr>"

text \<open>
  \<open>convert_to_cv_entity(data, raw_text)\<close>; \<open>now\<close> is the value of \<open>datetime.now()\<close>.
  The first operation on \<open>data\<close> is \<open>.get\<close>.
\<close>

definition convert_to_cv_entity :: "datetime \<Rightarrow> pyval \<Rightarrow> string \<Rightarrow> exn + CV_dyn" where
  "convert_to_cv_entity now data rawtext =
     (case data of
        PDict d \<Rightarrow>
          (case py_iter (dict_get d ''skills'' (PList [])) of
             Inl e \<Rightarrow> Inl e
           | Inr skill_items \<Rightarrow>
          (case for_each_try convert_skill skill_items [] of
             Inl e \<Rightarrow> Inl e
           | Inr sks \<Rightarrow>
          (case py_iter (dict_get d ''education'' (PList [])) of
             Inl e \<Rightarrow> Inl e
           | Inr edu_items \<Rightarrow>
          (case for_each convert_education edu_items [] of
             Inl e \<Rightarrow> Inl e
           | Inr edus \<Rightarrow>
          (case py_iter (dict_get d ''experience'' (PList [])) of
             Inl e \<Rightarrow> Inl e
           | Inr exp_items \<Rightarrow>
          (case for_each convert_experience exp_items [] of
             Inl e \<Rightarrow> Inl e
           | Inr exps \<Rightarrow>
               Inr (CV_dyn_post_init
                 \<lparr> CV_dyn.ident = PNone,
                   filename = [],
                   raw_text = rawtext,
                   name = dict_get d ''name'' PNone,
                   email = dict_get d ''email'' PNone,
                   phone = dict_get d ''phone'' PNone,
                   location = dict_get d ''location'' PNone,
                   skills = sks,
                   education = edus,
                   experience = exps,
                   certifications = dict_get d ''certifications'' (PList []),
                   languages = dict_get d ''languages'' (PList []),
                   created_at = Some now,
                   updated_at = None \<rparr>)))))))
      | _ \<Rightarrow> Inl AttributeError)"

subsection \<open>convert_to_job_entity\<close>

text \<open>
  The bodies of the loops over \<open>required_skills\<close> and \<open>preferred_skills\<close>. A preferred
  requirement is never mandatory and has the default weight \<open>0.5\<close>.
\<close>

definition convert_required_skill :: "pyval \<Rightarrow> exn + JobRequirement_dyn" where
  "convert_required_skill skill_data =
     (case skill_data of
        PDict d \<Rightarrow>
          (case py_lower (dict_get d ''required_level'' (PStr ''beginner'')) of
             Inl e \<Rightarrow> Inl e
           | Inr level_str \<Rightarrow>
               (let level_str = (if level_str \<notin> set valid_levels then ''beginner'' else level_str)
                in case SkillLevel_of level_str of
                     Inl e \<Rightarrow> Inl e
                   | Inr lvl \<Rightarrow>
                       Inr \<lparr> JobRequirement_dyn.skill = dict_get d ''skill'' (PStr []),
                             required_level = lvl,
                             is_mandatory = dict_get d ''is_mandatory'' (PBool True),
                             weight = dict_get d ''weight'' (PFloat 1) \<rparr>))
      | _ \<Rightarrow> Inl AttributeError)"

definition convert_preferred_skill :: "pyval \<Rightarrow> exn + JobRequirement_dyn" where
  "convert_preferred_skill skill_data =
     (case skill_data of
        PDict d \<Rightarrow>
          (case py_lower (dict_get d ''required_level'' (PStr ''beginner'')) of
             Inl e \<Rightarrow> Inl e
           | Inr level_str \<Rightarrow>
               (let level_str = (if level_str \<notin> set valid_levels then ''beginner'' else level_str)
                in case SkillLevel_of level_str of
                     Inl e \<Rightarrow> Inl e
                   | Inr lvl \<Rightarrow>
                       Inr \<lparr> JobRequirement_dyn.skill = dict_get d ''skill'' (PStr []),
                             required_level = lvl,
                             is_mandatory = PBool False,
                             weight = dict_get d ''weight'' (PFloat (1 / 2)) \<rparr>))
      | _ \<Rightarrow> Inl AttributeError)"

definition Job_dyn_post_init :: "Job_dyn \<Rightarrow> Job_dyn" where
  "Job_dyn_post_init self =
     self\<lparr> Job_dyn.required_education := default_list_dyn (Job_dyn.required_education self),
           Job_dyn.required_certifications :=
             default_list_dyn (Job_dyn.required_certifications self) \<rparr>"

definition convert_to_job_entity :: "datetime \<Rightarrow> pyval \<Rightarrow> string \<Rightarrow> exn + Job_dyn" where
  "convert_to_job_entity now data descr =
     (case data of
        PDict d \<Rightarrow>
          (case py_iter (dict_get d ''required_skills'' (PList [])) of
             Inl e \<Rightarrow> Inl e
           | Inr req_items \<Rightarrow>
          (case for_each_try convert_required_skill req_items [] of
             Inl e \<Rightarrow> Inl e
           | Inr reqs \<Rightarrow>
          (case py_iter (dict_get d ''preferred_skills'' (PList [])) of
             Inl e \<Rightarrow> Inl e
           | Inr pref_items \<Rightarrow>
          (case for_each_try convert_preferred_skill pref_items [] of
             Inl e \<Rightarrow> Inl e
           | Inr prefs \<Rightarrow>
               Inr (Job_dyn_post_init
                 \<lparr> Job_dyn.ident = PNone,
                   title = dict_get d ''title'' (PStr []),
                   company = dict_get d ''company'' (PStr []),
                   description = descr,
                   required_skills = reqs,
                   preferred_skills = prefs,
                   min_experience_years = dict_get d ''min_experience_years'' (PInt 0),
                   required_education = dict_get d ''required_education'' (PList []),
                   required_certifications = dict_get d ''required_certifications'' (PList []),
                   location = dict_get d ''location'' PNone,
                   salary_range = dict_get d ''salary_range'' PNone,
                   created_at = Some now,
                   updated_at = None \<rparr>)))))
      | _ \<Rightarrow> Inl AttributeError)"

subsection \<open>convert_to_match_analysis\<close>

text \<open>
  \<open>if lv and lv.lower() in valid_levels: x = SkillLevel(lv.lower())\<close>, with \<open>x\<close>
  initially \<open>None\<close>: a false value is left absent, and \<open>.lower()\<close> is called on every
  true one.
\<close>

definition resolve_level :: "pyval \<Rightarrow> exn + SkillLevel option" where
  "resolve_level lv =
     (if py_truthy lv
      then (case py_lower lv of
              Inl e \<Rightarrow> Inl e
            | Inr s \<Rightarrow>
                if s \<in> set valid_levels
                then (case SkillLevel_of s of Inl e \<Rightarrow> Inl e | Inr l \<Rightarrow> Inr (Some l))
                else Inr None)
      else Inr None)"

definition convert_skill_match :: "pyval \<Rightarrow> exn + SkillMatch_dyn" where
  "convert_skill_match match_data =
     (case match_data of
        PDict d \<Rightarrow>
          (let cv_level = dict_get d ''cv_skill_level'' PNone;
               req_level = dict_get d ''required_level'' PNone
           in case resolve_level cv_level of
                Inl e \<Rightarrow> Inl e
              | Inr cv_lvl \<Rightarrow>
                  (case resolve_level req_level of
                     Inl e \<Rightarrow> Inl e
                   | Inr req_lvl \<Rightarrow>
                       Inr \<lparr> SkillMatch_dyn.skill_name = dict_get d ''skill_name'' (PStr []),
                             cv_has_skill = dict_get d ''cv_has_skill'' (PBool False),
                             cv_skill_level = cv_lvl,
                             required_level = req_lvl,
                             match_score = dict_get d ''match_score'' (PFloat 0),
                             gap_analysis = dict_get d ''gap_analysis'' PNone \<rparr>))
      | _ \<Rightarrow> Inl AttributeError)"

definition MatchAnalysis_dyn_post_init :: "MatchAnalysis_dyn \<Rightarrow> MatchAnalysis_dyn" where
  "MatchAnalysis_dyn_post_init self =
     self\<lparr> MatchAnalysis_dyn.missing_skills := default_list_dyn (MatchAnalysis_dyn.missing_skills self),
           MatchAnalysis_dyn.matching_skills := default_list_dyn (MatchAnalysis_dyn.matching_skills self),
           MatchAnalysis_dyn.recommendations := default_list_dyn (MatchAnalysis_dyn.recommendations self),
           MatchAnalysis_dyn.interview_tips := default_list_dyn (MatchAnalysis_dyn.interview_tips self) \<rparr>"

definition convert_to_match_analysis ::
  "datetime \<Rightarrow> pyval \<Rightarrow> string \<Rightarrow> string \<Rightarrow> exn + MatchAnalysis_dyn" where
  "convert_to_match_analysis now data cvid jobid =
     (case data of
        PDict d \<Rightarrow>
          (case py_iter (dict_get d ''skill_matches'' (PList [])) of
             Inl e \<Rightarrow> Inl e
           | Inr match_items \<Rightarrow>
          (case for_each_try convert_skill_match match_items [] of
             Inl e \<Rightarrow> Inl e
           | Inr sms \<Rightarrow>
               Inr (MatchAnalysis_dyn_post_init
                 \<lparr> MatchAnalysis_dyn.cv_id = cvid,
                   job_id = jobid,
                   overall_score = dict_get d ''overall_score'' (PFloat 0),
                   skills_score = dict_get d ''skills_score'' (PFloat 0),
                   experience_score = dict_get d ''experience_score'' (PFloat 0),
                   education_score = dict_get d ''education_score'' (PFloat 0),
                   skill_matches = sms,
                   missing_skills = dict_get d ''missing_skills'' (PList []),
                   matching_skills = dict_get d ''matching_skills'' (PList []),
                   experience_gap_years = dict_get d ''experience_gap_years'' (PFloat 0),
                   recommendations = dict_get d ''recommendations'' (PList []),
                   interview_tips = dict_get d ''interview_tips'' (PList []),
                   analysis_date = Some now,
                   ai_model_used = Some ''gemini-1.5-flash'' \<rparr>)))
      | _ \<Rightarrow> Inl AttributeError)"

section \<open>GeminiAIService\<close>

text \<open>\<open>_extract_json_from_response\<close>.\<close>

definition extract_json_from_response :: "string \<Rightarrow> exn + string" where
  "extract_json_from_response response =
     (let start_idx = str_find response CHR ''{'';
          end_idx = str_rfind response CHR ''}''
      in if start_idx = -1 \<or> end_idx = -1 then Inl AIServiceError
         else Inr (str_slice response start_idx (end_idx + 1)))"

text \<open>
  \<open>extract_cv_data\<close>, from the text \<open>_generate_content\<close> returned. \<open>json.loads\<close> is the
  parameter \<open>loads\<close>, which gives the parsed value or the exception it raises
  (\<open>JSONDecodeError\<close> for text that is not JSON). \<open>extract_cv_data_try\<close> is the body of
  the \<open>try\<close>; both \<open>except\<close> clauses raise \<open>AIServiceError\<close>.
\<close>

definition extract_cv_data_try ::
  "(string \<Rightarrow> exn + pyval) \<Rightarrow> datetime \<Rightarrow> string \<Rightarrow> string \<Rightarrow> exn + CV_dyn" where
  "extract_cv_data_try loads now response0 rawtext =
     (let response = str_strip response0
      in if response = [] then Inl AIServiceError
         else (case extract_json_from_response response of
                 Inl e \<Rightarrow> Inl e
               | Inr payload \<Rightarrow>
                   (case loads payload of
                      Inl e \<Rightarrow> Inl e
                    | Inr extracted_data \<Rightarrow> convert_to_cv_entity now extracted_data rawtext)))"

definition extract_cv_data ::
  "(string \<Rightarrow> exn + pyval) \<Rightarrow> datetime \<Rightarrow> string \<Rightarrow> string \<Rightarrow> exn + CV_dyn" where
  "extract_cv_data loads now response0 rawtext =
     (case extract_cv_data_try loads now response0 rawtext of
        Inr cv \<Rightarrow> Inr cv
      | Inl e \<Rightarrow>
          if e = JSONDecodeError then Inl AIServiceError
          else Inl AIServiceError)"

section \<open>Entities used as concrete inputs\<close>

text \<open>
  The records of the arguments of \<open>CV()\<close>, \<open>Job()\<close>, \<open>MatchAnalysis(cv_id, job_id)\<close> and
  \<open>Match()\<close> with every default of the dataclass. A concrete entity below is a
  \<open>__post_init__\<close> of such a record with some arguments given.
\<close>

definition CV_defaults :: CV where
  "CV_defaults =
     \<lparr> CV.ident = None, filename = [], raw_text = [], name = None, email = None,
       phone = None, location = None, skills = None, education = None, experience = None,
       certifications = None, languages = None, created_at = None, updated_at = None \<rparr>"

definition Job_defaults :: Job where
  "Job_defaults =
     \<lparr> Job.ident = None, title = [], company = [], description = [],
       required_skills = None, preferred_skills = None, min_experience_years = 0,
       required_education = None, required_certifications = None, location = None,
       salary_range = None, created_at = None, updated_at = None \<rparr>"

definition MatchAnalysis_defaults :: "string \<Rightarrow> string \<Rightarrow> MatchAnalysis" where
  "MatchAnalysis_defaults cvid jobid =
     \<lparr> MatchAnalysis.cv_id = cvid, job_id = jobid, overall_score = 0, skills_score = 0,
       experience_score = 0, education_score = 0, skill_matches = None,
       missing_skills = None, matching_skills = None, experience_gap_years = 0,
       recommendations = None, interview_tips = None, analysis_date = None,
       ai_model_used = None \<rparr>"

definition Match_defaults :: Match where
  "Match_defaults =
     \<lparr> Match.ident = None, cv_id = [], job_id = [], status = PENDING, analysis = None,
       error_message = None, created_at = None, completed_at = None,
       processing_time_seconds = None \<rparr>"


definition mk_Education :: "string \<Rightarrow> string \<Rightarrow> string \<Rightarrow> Education" where
  "mk_Education d i f =
     \<lparr> Education.degree = d, institution = i, field_of_study = f, graduation_year = None,
       gpa = None \<rparr>"

definition mk_Experience :: "string \<Rightarrow> string \<Rightarrow> int \<Rightarrow> Experience" where
  "mk_Experience p c m =
     \<lparr> Experience.position = p, company = c, duration_months = m, description = [],
       skills_used = [], start_date = None, end_date = None \<rparr>"


section \<open>The statements of the specification\<close>

text \<open>
  The definitions of this section follow the words of the specification, not the code.
  The theorems compare them with the code.
\<close>

text \<open>The list a field holds, read as a sequence: an absent container has no element.\<close>

definition given_or_empty :: "'a list option \<Rightarrow> 'a list" where
  "given_or_empty v = (case v of None \<Rightarrow> [] | Some xs \<Rightarrow> xs)"

text \<open>
  \<open>M\<close>: the count of the job's mandatory-requirement skill names absent from the CV's
  skill-name list.
\<close>

definition spec_missing_mandatory :: "CV \<Rightarrow> Job \<Rightarrow> nat" where
  "spec_missing_mandatory cv job =
     length (filter (\<lambda>r. JobRequirement.is_mandatory r \<and>
                          JobRequirement.skill r
                            \<notin> set (map Skill.name (given_or_empty (CV.skills cv))))
                    (given_or_empty (Job.required_skills job)))"

text \<open>The CV's total experience in years: the sum of the durations in months over 12.\<close>

definition spec_cv_years :: "CV \<Rightarrow> real" where
  "spec_cv_years cv =
     real_of_int (sum_list (map Experience.duration_months (given_or_empty (CV.experience cv)))) / 12"

text \<open>
  The experience boost: if the CV's years are at least the job's minimum, add
  \<open>min(10, 2 * diff)\<close>, clamped at a ceiling of 100.
\<close>

definition spec_boost :: "CV \<Rightarrow> Job \<Rightarrow> real \<Rightarrow> real" where
  "spec_boost cv job s =
     (if spec_cv_years cv \<ge> real_of_int (Job.min_experience_years job)
      then min 100 (s + min 10 (2 * (spec_cv_years cv - real_of_int (Job.min_experience_years job))))
      else s)"

text \<open>
  The mandatory-skill penalty as the specification words it: reduce by \<open>10 * M\<close>, clamped
  at a floor of 0, whatever \<open>M\<close> is.
\<close>

definition spec_penalty :: "CV \<Rightarrow> Job \<Rightarrow> real \<Rightarrow> real" where
  "spec_penalty cv job s = max 0 (s - 10 * real (spec_missing_mandatory cv job))"

definition spec_overall_score :: "real \<Rightarrow> CV \<Rightarrow> Job \<Rightarrow> real" where
  "spec_overall_score s cv job = spec_boost cv job (spec_penalty cv job s)"

text \<open>
  The penalty with the guard of the code: with no mandatory skill missing the score is
  left as it is, with no clamp.
\<close>

definition guarded_penalty :: "CV \<Rightarrow> Job \<Rightarrow> real \<Rightarrow> real" where
  "guarded_penalty cv job s =
     (if spec_missing_mandatory cv job = 0 then s
      else max 0 (s - 10 * real (spec_missing_mandatory cv job)))"

definition guarded_overall_score :: "real \<Rightarrow> CV \<Rightarrow> Job \<Rightarrow> real" where
  "guarded_overall_score s cv job = spec_boost cv job (guarded_penalty cv job s)"

text \<open>
  The same two steps on an arithmetic \<open>ar\<close> of floats, the amounts computed as the code
  writes them: the penalty is \<open>M * 0.1 * 100\<close>, the boost is
  \<open>min(0.1, diff * 0.02) * 100\<close>, and the CV's years are the sum of the months divided
  by \<open>12.0\<close>, or \<open>0.0\<close> for a CV with no experience entry.
\<close>

definition spec_cv_years_ar :: "arith \<Rightarrow> CV \<Rightarrow> real" where
  "spec_cv_years_ar ar cv =
     (if given_or_empty (CV.experience cv) = [] then 0
      else fdiv ar
             (real_of_int
                (sum_list (map Experience.duration_months (given_or_empty (CV.experience cv)))))
             12)"

definition guarded_penalty_ar :: "arith \<Rightarrow> CV \<Rightarrow> Job \<Rightarrow> real \<Rightarrow> real" where
  "guarded_penalty_ar ar cv job s =
     (if spec_missing_mandatory cv job = 0 then s
      else max 0
             (fsub ar s
                (fmul ar (fmul ar (real (spec_missing_mandatory cv job)) (flit ar (1 / 10))) 100)))"

definition spec_boost_ar :: "arith \<Rightarrow> CV \<Rightarrow> Job \<Rightarrow> real \<Rightarrow> real" where
  "spec_boost_ar ar cv job s =
     (if spec_cv_years_ar ar cv \<ge> real_of_int (Job.min_experience_years job)
      then min 100
             (fadd ar s
                (fmul ar
                   (min (flit ar (1 / 10))
                        (fmul ar
                           (fsub ar (spec_cv_years_ar ar cv)
                              (real_of_int (Job.min_experience_years job)))
                           (flit ar (2 / 100))))
                   100))
      else s)"

text \<open>
  Comparing text case-insensitively. The table pairs every capital letter of Latin-1 with
  its small letter. Two characters are the same but for case if they are equal or the
  two letters of one pair, and two strings are if they have the same length and are so
  character by character.
\<close>

definition case_pairs :: "(char \<times> char) list" where
  "case_pairs =
     zip (''ABCDEFGHIJKLMNOPQRSTUVWXYZ''
          @ [CHR 0xC0, CHR 0xC1, CHR 0xC2, CHR 0xC3, CHR 0xC4, CHR 0xC5, CHR 0xC6, CHR 0xC7,
             CHR 0xC8, CHR 0xC9, CHR 0xCA, CHR 0xCB, CHR 0xCC, CHR 0xCD, CHR 0xCE, CHR 0xCF,
             CHR 0xD0, CHR 0xD1, CHR 0xD2, CHR 0xD3, CHR 0xD4, CHR 0xD5, CHR 0xD6,
             CHR 0xD8, CHR 0xD9, CHR 0xDA, CHR 0xDB, CHR 0xDC, CHR 0xDD, CHR 0xDE])
         (''abcdefghijklmnopqrstuvwxyz''
          @ [CHR 0xE0, CHR 0xE1, CHR 0xE2, CHR 0xE3, CHR 0xE4, CHR 0xE5, CHR 0xE6, CHR 0xE7,
             CHR 0xE8, CHR 0xE9, CHR 0xEA, CHR 0xEB, CHR 0xEC, CHR 0xED, CHR 0xEE, CHR 0xEF,
             CHR 0xF0, CHR 0xF1, CHR 0xF2, CHR 0xF3, CHR 0xF4, CHR 0xF5, CHR 0xF6,
             CHR 0xF8, CHR 0xF9, CHR 0xFA, CHR 0xFB, CHR 0xFC, CHR 0xFD, CHR 0xFE])"

definition same_char_but_case :: "char \<Rightarrow> char \<Rightarrow> bool" where
  "same_char_but_case a b = (a = b \<or> (a, b) \<in> set case_pairs \<or> (b, a) \<in> set case_pairs)"

definition same_but_case :: "string \<Rightarrow> string \<Rightarrow> bool" where
  "same_but_case s t = list_all2 same_char_but_case s t"

text \<open>
  The required education entries that the CV's degree names do not cover, compared
  case-insensitively, in the order of the job.
\<close>

definition uncovered_education :: "CV \<Rightarrow> Job \<Rightarrow> string list" where
  "uncovered_education cv job =
     filter (\<lambda>req. \<not> list_ex (\<lambda>e. same_but_case req (Education.degree e))
                              (given_or_empty (CV.education cv)))
            (given_or_empty (Job.required_education job))"

text \<open>
  The lines of recommendation augmentation: (a) the missing skills, at most the first
  three; (b) the experience gap; (c) the first uncovered education requirement.
\<close>

definition spec_skills_line :: "MatchAnalysis \<Rightarrow> string list" where
  "spec_skills_line a =
     (if given_or_empty (MatchAnalysis.missing_skills a) = [] then []
      else [''Consider learning: ''
              @ str_join '', '' (take 3 (given_or_empty (MatchAnalysis.missing_skills a)))])"

definition spec_gap_line :: "(real \<Rightarrow> string) \<Rightarrow> MatchAnalysis \<Rightarrow> string list" where
  "spec_gap_line fmt a =
     (if MatchAnalysis.experience_gap_years a > 0
      then [''Gain '' @ fmt (MatchAnalysis.experience_gap_years a)
              @ '' more years of relevant experience'']
      else [])"

definition spec_education_line :: "CV \<Rightarrow> Job \<Rightarrow> string list" where
  "spec_education_line cv job =
     (case uncovered_education cv job of
        [] \<Rightarrow> []
      | u # _ \<Rightarrow> [''Consider pursuing: '' @ u])"

text \<open>
  The payload of a response: the text from the first \<open>{\<close> to the last \<open>}\<close>. What stands
  before the first \<open>{\<close> is dropped, then what stands after the last \<open>}\<close>.
\<close>

definition drop_end :: "('a \<Rightarrow> bool) \<Rightarrow> 'a list \<Rightarrow> 'a list" where
  "drop_end P xs = rev (dropWhile P (rev xs))"

definition spec_payload :: "string \<Rightarrow> string" where
  "spec_payload s = drop_end (\<lambda>c. c \<noteq> CHR ''}'') (dropWhile (\<lambda>c. c \<noteq> CHR ''{'') s)"

definition has_braces :: "string \<Rightarrow> bool" where
  "has_braces s = (CHR ''{'' \<in> set s \<and> CHR ''}'' \<in> set s)"

text \<open>
  The violations of a check, as a table of conditions and messages: the messages whose
  condition holds, in the order of the table.
\<close>

definition violations :: "(bool \<times> string) list \<Rightarrow> string list" where
  "violations table = map snd (filter fst table)"

text \<open>
  A text is blank if it has no character that is not white space; the empty text is
  blank. An identifier is missing if it is absent or blank.
\<close>

definition blank :: "string \<Rightarrow> bool" where
  "blank s = list_all py_isspace s"

definition missing_id :: "string option \<Rightarrow> bool" where
  "missing_id v = (case v of None \<Rightarrow> True | Some s \<Rightarrow> blank s)"

section \<open>Properties\<close>

subsection \<open>Match.recommendation_level\<close>

text \<open>
  C7. For a Match whose analysis is present, the recommendation label is a step function
  of the overall score of the analysis with the boundaries 40, 60 and 80: at least 80
  gives "Highly Recommended", from 60 up to but not 80 gives "Recommended", from 40 up to
  but not 60 gives "Consider with Caution", and below 40 gives "Not Recommended".
\<close>

theorem recommendation_level_tiers:
  assumes "Match.analysis m = Some a"
  shows "(MatchAnalysis.overall_score a \<ge> 80
           \<longrightarrow> recommendation_level m = ''Highly Recommended'')
       \<and> (60 \<le> MatchAnalysis.overall_score a \<and> MatchAnalysis.overall_score a < 80
           \<longrightarrow> recommendation_level m = ''Recommended'')
       \<and> (40 \<le> MatchAnalysis.overall_score a \<and> MatchAnalysis.overall_score a < 60
           \<longrightarrow> recommendation_level m = ''Consider with Caution'')
       \<and> (MatchAnalysis.overall_score a < 40
           \<longrightarrow> recommendation_level m = ''Not Recommended'')"
  using assms by (simp add: recommendation_level_def Let_def)

theorem recommendation_level_tiers_witness:
  "recommendation_level
     (Match_defaults\<lparr>Match.analysis :=
        Some ((MatchAnalysis_defaults ''cv'' ''job'')\<lparr>MatchAnalysis.overall_score := 80\<rparr>)\<rparr>)
     = ''Highly Recommended''
   \<and> recommendation_level
     (Match_defaults\<lparr>Match.analysis :=
        Some ((MatchAnalysis_defaults ''cv'' ''job'')\<lparr>MatchAnalysis.overall_score := 799 / 10\<rparr>)\<rparr>)
     = ''Recommended''"
  using
    recommendation_level_tiers
      [of "Match_defaults\<lparr>Match.analysis :=
             Some ((MatchAnalysis_defaults ''cv'' ''job'')\<lparr>MatchAnalysis.overall_score := 80\<rparr>)\<rparr>"
          "(MatchAnalysis_defaults ''cv'' ''job'')\<lparr>MatchAnalysis.overall_score := 80\<rparr>"]
    recommendation_level_tiers
      [of "Match_defaults\<lparr>Match.analysis :=
             Some ((MatchAnalysis_defaults ''cv'' ''job'')\<lparr>MatchAnalysis.overall_score := 799 / 10\<rparr>)\<rparr>"
          "(MatchAnalysis_defaults ''cv'' ''job'')\<lparr>MatchAnalysis.overall_score := 799 / 10\<rparr>"]
  by simp

text \<open>
  C10. For a Match whose analysis is absent, the recommendation label is "Unknown".
\<close>

theorem recommendation_level_unknown:
  assumes "Match.analysis m = None"
  shows "recommendation_level m = ''Unknown''"
  using assms by (simp add: recommendation_level_def)

theorem recommendation_level_unknown_witness:
  "recommendation_level Match_defaults = ''Unknown''"
  using recommendation_level_unknown [of Match_defaults]
  by (simp add: Match_defaults_def)

subsection \<open>Construction of the entities\<close>

lemma default_list_given: "default_list v = Some (given_or_empty v)"
  by (cases v) (simp_all add: default_list_def given_or_empty_def)

lemma CV_post_init_lists:
  "CV.skills (CV_post_init c) = Some (given_or_empty (CV.skills c))"
  "CV.education (CV_post_init c) = Some (given_or_empty (CV.education c))"
  "CV.experience (CV_post_init c) = Some (given_or_empty (CV.experience c))"
  "CV.certifications (CV_post_init c) = Some (given_or_empty (CV.certifications c))"
  "CV.languages (CV_post_init c) = Some (given_or_empty (CV.languages c))"
  by (simp_all add: CV_post_init_def default_list_given)

lemma Job_post_init_lists:
  "Job.required_skills (Job_post_init j) = Some (given_or_empty (Job.required_skills j))"
  "Job.preferred_skills (Job_post_init j) = Some (given_or_empty (Job.preferred_skills j))"
  "Job.required_education (Job_post_init j) = Some (given_or_empty (Job.required_education j))"
  "Job.required_certifications (Job_post_init j)
     = Some (given_or_empty (Job.required_certifications j))"
  by (simp_all add: Job_post_init_def default_list_given)

lemma MatchAnalysis_post_init_lists:
  "MatchAnalysis.skill_matches (MatchAnalysis_post_init a)
     = Some (given_or_empty (MatchAnalysis.skill_matches a))"
  "MatchAnalysis.missing_skills (MatchAnalysis_post_init a)
     = Some (given_or_empty (MatchAnalysis.missing_skills a))"
  "MatchAnalysis.matching_skills (MatchAnalysis_post_init a)
     = Some (given_or_empty (MatchAnalysis.matching_skills a))"
  "MatchAnalysis.recommendations (MatchAnalysis_post_init a)
     = Some (given_or_empty (MatchAnalysis.recommendations a))"
  "MatchAnalysis.interview_tips (MatchAnalysis_post_init a)
     = Some (given_or_empty (MatchAnalysis.interview_tips a))"
  by (simp_all add: MatchAnalysis_post_init_def default_list_given)

lemma MatchAnalysis_post_init_scalars:
  "MatchAnalysis.overall_score (MatchAnalysis_post_init a) = MatchAnalysis.overall_score a"
  "MatchAnalysis.experience_gap_years (MatchAnalysis_post_init a)
     = MatchAnalysis.experience_gap_years a"
  by (simp_all add: MatchAnalysis_post_init_def)

text \<open>
  C9. However a CV, a Job or a MatchAnalysis is constructed, each of its list-valued
  fields holds a list afterwards, never the absent container: the list that was given,
  and the empty list where the argument was omitted or \<open>None\<close>.
\<close>

theorem post_init_lists_present:
  "CV.skills (CV_post_init c) = Some (given_or_empty (CV.skills c))
   \<and> CV.education (CV_post_init c) = Some (given_or_empty (CV.education c))
   \<and> CV.experience (CV_post_init c) = Some (given_or_empty (CV.experience c))
   \<and> CV.certifications (CV_post_init c) = Some (given_or_empty (CV.certifications c))
   \<and> CV.languages (CV_post_init c) = Some (given_or_empty (CV.languages c))
   \<and> Job.required_skills (Job_post_init j) = Some (given_or_empty (Job.required_skills j))
   \<and> Job.preferred_skills (Job_post_init j) = Some (given_or_empty (Job.preferred_skills j))
   \<and> Job.required_education (Job_post_init j) = Some (given_or_empty (Job.required_education j))
   \<and> Job.required_certifications (Job_post_init j)
       = Some (given_or_empty (Job.required_certifications j))
   \<and> MatchAnalysis.skill_matches (MatchAnalysis_post_init a)
       = Some (given_or_empty (MatchAnalysis.skill_matches a))
   \<and> MatchAnalysis.missing_skills (MatchAnalysis_post_init a)
       = Some (given_or_empty (MatchAnalysis.missing_skills a))
   \<and> MatchAnalysis.matching_skills (MatchAnalysis_post_init a)
       = Some (given_or_empty (MatchAnalysis.matching_skills a))
   \<and> MatchAnalysis.recommendations (MatchAnalysis_post_init a)
       = Some (given_or_empty (MatchAnalysis.recommendations a))
   \<and> MatchAnalysis.interview_tips (MatchAnalysis_post_init a)
       = Some (given_or_empty (MatchAnalysis.interview_tips a))"
  by (simp only: CV_post_init_lists Job_post_init_lists MatchAnalysis_post_init_lists simp_thms)

theorem post_init_lists_present_witness:
  "CV.skills (CV_post_init CV_defaults) = Some []
   \<and> CV.education (CV_post_init CV_defaults) = Some []
   \<and> CV.experience (CV_post_init CV_defaults) = Some []
   \<and> CV.certifications (CV_post_init CV_defaults) = Some []
   \<and> CV.languages (CV_post_init CV_defaults) = Some []
   \<and> Job.required_skills (Job_post_init Job_defaults) = Some []
   \<and> Job.preferred_skills (Job_post_init Job_defaults) = Some []
   \<and> Job.required_education (Job_post_init Job_defaults) = Some []
   \<and> Job.required_certifications (Job_post_init Job_defaults) = Some []
   \<and> MatchAnalysis.skill_matches (MatchAnalysis_post_init (MatchAnalysis_defaults ''cv'' ''job'')) = Some []
   \<and> MatchAnalysis.missing_skills (MatchAnalysis_post_init (MatchAnalysis_defaults ''cv'' ''job'')) = Some []
   \<and> MatchAnalysis.matching_skills (MatchAnalysis_post_init (MatchAnalysis_defaults ''cv'' ''job'')) = Some []
   \<and> MatchAnalysis.recommendations (MatchAnalysis_post_init (MatchAnalysis_defaults ''cv'' ''job'')) = Some []
   \<and> MatchAnalysis.interview_tips (MatchAnalysis_post_init (MatchAnalysis_defaults ''cv'' ''job'')) = Some []"
  using post_init_lists_present
    [of CV_defaults Job_defaults "MatchAnalysis_defaults ''cv'' ''job''"]
  by (simp add: CV_defaults_def Job_defaults_def MatchAnalysis_defaults_def given_or_empty_def)

subsection \<open>ValidationService\<close>

lemma str_strip_blank: "str_strip s = [] \<longleftrightarrow> blank s"
proof
  assume "blank s"
  then show "str_strip s = []"
    by (auto simp: str_strip_def blank_def list_all_iff dest: set_dropWhileD)
next
  assume empty: "str_strip s = []"
  show "blank s"
  proof (rule ccontr)
    assume "\<not> blank s"
    then have ne: "dropWhile py_isspace s \<noteq> []"
      by (simp add: blank_def list_all_iff)
    then have "\<not> py_isspace (hd (dropWhile py_isspace s))"
      by (rule hd_dropWhile)
    moreover have "hd (dropWhile py_isspace s) \<in> set (rev (dropWhile py_isspace s))"
      using ne by simp
    ultimately have "dropWhile py_isspace (rev (dropWhile py_isspace s)) \<noteq> []"
      by (auto simp: dropWhile_eq_Nil_conv)
    with empty show False
      by (simp add: str_strip_def)
  qed
qed

lemma not_id_missing:
  "(case v of None \<Rightarrow> True | Some s \<Rightarrow> s = [] \<or> str_strip s = []) = missing_id v"
  by (cases v) (auto simp: missing_id_def str_strip_blank blank_def)

lemma validate_cv_violations:
  "validate_cv cv =
     violations [(blank (CV.raw_text cv), ''CV must contain text content''),
                 (CV.filename cv = [], ''CV must have a filename'')]"
  by (simp add: validate_cv_def violations_def str_strip_blank Let_def)

lemma validate_job_violations:
  "validate_job job =
     violations [(blank (Job.title job), ''Job must have a title''),
                 (blank (Job.description job), ''Job must have a description''),
                 (Job.min_experience_years job < 0,
                    ''Minimum experience years cannot be negative'')]"
  by (simp add: validate_job_def violations_def str_strip_blank Let_def)

lemma validate_match_request_violations:
  "validate_match_request cvid jobid =
     violations [(missing_id cvid, ''CV ID is required''),
                 (missing_id jobid, ''Job ID is required'')]"
  by (simp add: validate_match_request_def violations_def not_id_missing Let_def)

text \<open>
  C8, as amended. Each check of the Validation Service is a function of its arguments
  alone and returns every violation message that applies, in a fixed order, not only the
  first: for a CV, blank raw text and an empty filename; for a job, a blank title, a
  blank description and a negative minimum of experience years; for a match request, a
  CV identifier and a job identifier that is absent or blank. A CV whose raw text is
  blank and whose filename is empty gets exactly the two messages of \<open>validate_cv\<close>; a
  filename that is not empty is accepted even if it is blank. An entity that violates
  nothing gets the empty list.
\<close>

theorem validation_accumulates:
  "validate_cv cv =
     violations [(blank (CV.raw_text cv), ''CV must contain text content''),
                 (CV.filename cv = [], ''CV must have a filename'')]
   \<and> validate_job job =
     violations [(blank (Job.title job), ''Job must have a title''),
                 (blank (Job.description job), ''Job must have a description''),
                 (Job.min_experience_years job < 0,
                    ''Minimum experience years cannot be negative'')]
   \<and> validate_match_request cvid jobid =
     violations [(missing_id cvid, ''CV ID is required''),
                 (missing_id jobid, ''Job ID is required'')]
   \<and> (blank (CV.raw_text cv) \<and> CV.filename cv = []
        \<longrightarrow> validate_cv cv = [''CV must contain text content'', ''CV must have a filename''])
   \<and> (blank (CV.raw_text cv) \<and> CV.filename cv \<noteq> []
        \<longrightarrow> validate_cv cv = [''CV must contain text content''])
   \<and> (\<not> blank (CV.raw_text cv) \<and> CV.filename cv \<noteq> [] \<longrightarrow> validate_cv cv = [])
   \<and> (\<not> blank (Job.title job) \<and> \<not> blank (Job.description job)
        \<and> 0 \<le> Job.min_experience_years job \<longrightarrow> validate_job job = [])
   \<and> (\<not> missing_id cvid \<and> \<not> missing_id jobid \<longrightarrow> validate_match_request cvid jobid = [])"
  unfolding validate_cv_violations validate_job_violations validate_match_request_violations
  by (simp add: violations_def)

theorem validation_accumulates_witness:
  "validate_cv (CV_post_init (CV_defaults\<lparr>CV.raw_text := [CHR 0x20, CHR 0xA0, CHR 0x85, CHR 0x0A]\<rparr>))
     = [''CV must contain text content'', ''CV must have a filename'']
   \<and> validate_cv (CV_post_init (CV_defaults\<lparr>CV.raw_text := ''Ada, engineer'',
                                              CV.filename := ''ada.pdf''\<rparr>)) = []
   \<and> validate_job (Job_post_init (Job_defaults\<lparr>Job.min_experience_years := -1\<rparr>))
     = [''Job must have a title'', ''Job must have a description'',
        ''Minimum experience years cannot be negative'']
   \<and> validate_match_request None (Some ''job-1'') = [''CV ID is required'']
   \<and> validate_match_request (Some ''cv-1'') (Some ''   '') = [''Job ID is required'']"
  using
    validation_accumulates
      [of "CV_post_init (CV_defaults\<lparr>CV.raw_text := [CHR 0x20, CHR 0xA0, CHR 0x85, CHR 0x0A]\<rparr>)"
          "Job_post_init (Job_defaults\<lparr>Job.min_experience_years := -1\<rparr>)"
          None "Some ''job-1''"]
    validation_accumulates
      [of "CV_post_init (CV_defaults\<lparr>CV.raw_text := ''Ada, engineer'',
                                       CV.filename := ''ada.pdf''\<rparr>)"
          "Job_post_init (Job_defaults\<lparr>Job.min_experience_years := -1\<rparr>)"
          "Some ''cv-1''" "Some ''   ''"]
  by (simp add: violations_def blank_def missing_id_def py_isspace_def
      CV_post_init_def CV_defaults_def Job_post_init_def Job_defaults_def)

text \<open>
  The claim as stated fails for a filename that is blank but not empty: the raw text and
  the filename below are both blank, and the CV gets one message, not two.
\<close>

theorem validation_blank_filename_counterexample:
  "blank ''   '' \<and> blank '' ''
   \<and> validate_cv (CV_post_init (CV_defaults\<lparr>CV.raw_text := ''   '', CV.filename := '' ''\<rparr>))
     = [''CV must contain text content'']"
  by (simp add: validate_cv_def Let_def blank_def str_strip_def py_isspace_def
      CV_post_init_def CV_defaults_def)
subsection \<open>MatchingService: the score rules\<close>

lemma total_experience_years_ar_eq: "total_experience_years_ar ar cv = spec_cv_years_ar ar cv"
  by (auto simp: total_experience_years_ar_def spec_cv_years_ar_def given_or_empty_def
      split: option.splits)

lemma exact_arith_fields:
  "flit exact_arith x = x"
  "fadd exact_arith x y = x + y"
  "fsub exact_arith x y = x - y"
  "fmul exact_arith x y = x * y"
  "fdiv exact_arith x y = x / y"
  by (simp_all add: exact_arith_def)

lemma spec_cv_years_exact: "spec_cv_years_ar exact_arith cv = spec_cv_years cv"
  by (simp add: spec_cv_years_ar_def spec_cv_years_def exact_arith_fields)

lemma total_experience_years_eq: "total_experience_years cv = spec_cv_years cv"
  by (simp add: total_experience_years_def total_experience_years_ar_eq spec_cv_years_exact)

lemma skill_names_eq: "skill_names cv = map Skill.name (given_or_empty (CV.skills cv))"
  by (auto simp: skill_names_def given_or_empty_def split: option.splits)

lemma mandatory_skills_eq:
  "mandatory_skills job
     = filter JobRequirement.is_mandatory (given_or_empty (Job.required_skills job))"
  by (auto simp: mandatory_skills_def given_or_empty_def split: option.splits)

lemma missing_mandatory_length:
  "length (filter (\<lambda>s. s \<notin> set (skill_names cv)) (map JobRequirement.skill (mandatory_skills job)))
     = spec_missing_mandatory cv job"
  by (simp add: skill_names_eq mandatory_skills_eq spec_missing_mandatory_def filter_map o_def
      conj_commute)

lemma missing_mandatory_length_comp:
  "length (filter ((\<lambda>s. s \<notin> set (skill_names cv)) \<circ> JobRequirement.skill) (mandatory_skills job))
     = spec_missing_mandatory cv job"
  using missing_mandatory_length [of cv job] by (simp add: filter_map)

lemma missing_mandatory_nonempty:
  "(filter (\<lambda>s. s \<notin> set (skill_names cv)) (map JobRequirement.skill (mandatory_skills job)) \<noteq> [])
     = (spec_missing_mandatory cv job \<noteq> 0)"
  using missing_mandatory_length [of cv job] by (metis length_0_conv)

text \<open>
  The score a run of \<open>_apply_business_rules\<close> returns on any arithmetic, for an analysis
  whose \<open>recommendations\<close> field holds a list: the guarded penalty, then the boost.
\<close>

lemma apply_business_rules_ar_overall:
  assumes "MatchAnalysis.recommendations a = Some recs"
  shows "\<exists>a'. apply_business_rules_ar ar fmt a cv job = Inr a' \<and>
          MatchAnalysis.overall_score a'
            = spec_boost_ar ar cv job (guarded_penalty_ar ar cv job (MatchAnalysis.overall_score a))"
proof (cases "spec_missing_mandatory cv job = 0")
  case True
  then show ?thesis
    using assms
    by (simp add: apply_business_rules_ar_def Let_def guarded_penalty_ar_def spec_boost_ar_def
        total_experience_years_ar_eq missing_mandatory_nonempty)
next
  case False
  then show ?thesis
    using assms
    by (simp add: apply_business_rules_ar_def Let_def guarded_penalty_ar_def spec_boost_ar_def
        total_experience_years_ar_eq missing_mandatory_nonempty missing_mandatory_length_comp)
qed

text \<open>
  With no rounding the penalty is 10 points for each missing mandatory skill and the
  boost is \<open>min(10, 2 * diff)\<close>.
\<close>

lemma boost_arith: "min (1 / 10) ((x - y) / 50) * 100 = min 10 (2 * x - 2 * y)" for x y :: real
  by (simp add: min_def)

lemma guarded_penalty_exact: "guarded_penalty_ar exact_arith cv job s = guarded_penalty cv job s"
  by (simp add: guarded_penalty_ar_def guarded_penalty_def exact_arith_fields)

lemma spec_boost_exact: "spec_boost_ar exact_arith cv job s = spec_boost cv job s"
  by (simp add: spec_boost_ar_def spec_boost_def spec_cv_years_exact exact_arith_fields
      boost_arith)

lemma apply_business_rules_overall:
  assumes "MatchAnalysis.recommendations a = Some recs"
  shows "\<exists>a'. apply_business_rules fmt a cv job = Inr a' \<and>
          MatchAnalysis.overall_score a'
            = guarded_overall_score (MatchAnalysis.overall_score a) cv job"
  using apply_business_rules_ar_overall [OF assms, of exact_arith fmt cv job]
  by (simp add: apply_business_rules_def guarded_overall_score_def guarded_penalty_exact
      spec_boost_exact)

lemma guarded_eq_spec:
  "0 \<le> s \<or> spec_missing_mandatory cv job \<noteq> 0
     \<Longrightarrow> guarded_overall_score s cv job = spec_overall_score s cv job"
  by (auto simp: guarded_overall_score_def guarded_penalty_def spec_overall_score_def
      spec_penalty_def)

lemma spec_boost_lower: "0 \<le> s \<Longrightarrow> 0 \<le> spec_boost cv job s"
  by (auto simp: spec_boost_def)

lemma spec_boost_upper:
  "s \<le> 100 \<or> spec_cv_years cv \<ge> real_of_int (Job.min_experience_years job)
     \<Longrightarrow> spec_boost cv job s \<le> 100"
  by (auto simp: spec_boost_def)

lemma guarded_penalty_lower:
  "0 \<le> s \<or> spec_missing_mandatory cv job \<noteq> 0 \<Longrightarrow> 0 \<le> guarded_penalty cv job s"
  by (auto simp: guarded_penalty_def)

lemma guarded_penalty_upper: "s \<le> 100 \<Longrightarrow> guarded_penalty cv job s \<le> 100"
  by (auto simp: guarded_penalty_def)





text \<open>
  C2, as amended. The analysis the Business Rule Engine returns has an overall score of
  at least 0 whenever the score given is at least 0 or a mandatory skill is missing, and
  of at most 100 whenever the score given is at most 100 or the CV's experience reaches
  the job's minimum. So a score given within [0, 100] stays within [0, 100]; a score
  given outside is brought back only by a rule that applies.
\<close>

theorem business_rules_score_range:
  "\<exists>a'. apply_business_rules fmt (MatchAnalysis_post_init a) cv job = Inr a'
        \<and> (0 \<le> MatchAnalysis.overall_score a \<or> spec_missing_mandatory cv job \<noteq> 0
             \<longrightarrow> 0 \<le> MatchAnalysis.overall_score a')
        \<and> (MatchAnalysis.overall_score a \<le> 100
               \<or> spec_cv_years cv \<ge> real_of_int (Job.min_experience_years job)
             \<longrightarrow> MatchAnalysis.overall_score a' \<le> 100)"
proof -
  have "MatchAnalysis.recommendations (MatchAnalysis_post_init a)
          = Some (given_or_empty (MatchAnalysis.recommendations a))"
    by (rule MatchAnalysis_post_init_lists)
  from apply_business_rules_overall [OF this, of fmt cv job]
  obtain a' where a': "apply_business_rules fmt (MatchAnalysis_post_init a) cv job = Inr a'"
      "MatchAnalysis.overall_score a'
         = guarded_overall_score (MatchAnalysis.overall_score a) cv job"
    by (auto simp: MatchAnalysis_post_init_scalars)
  have lo: "0 \<le> MatchAnalysis.overall_score a'"
    if "0 \<le> MatchAnalysis.overall_score a \<or> spec_missing_mandatory cv job \<noteq> 0"
    using that a'(2) spec_boost_lower guarded_penalty_lower
    by (simp add: guarded_overall_score_def)
  have hi: "MatchAnalysis.overall_score a' \<le> 100"
    if "MatchAnalysis.overall_score a \<le> 100
          \<or> spec_cv_years cv \<ge> real_of_int (Job.min_experience_years job)"
    using that a'(2) spec_boost_upper guarded_penalty_upper
    by (auto simp: guarded_overall_score_def)
  from a'(1) lo hi show ?thesis by blast
qed

theorem business_rules_score_range_witness:
  "\<exists>a'. apply_business_rules (\<lambda>x. [])
          (MatchAnalysis_post_init
             ((MatchAnalysis_defaults ''cv'' ''job'')\<lparr>MatchAnalysis.overall_score := 98\<rparr>))
          (CV_post_init
             (CV_defaults\<lparr>CV.experience := Some [mk_Experience ''Developer'' ''Acme'' 240]\<rparr>))
          (Job_post_init (Job_defaults\<lparr>Job.min_experience_years := 2\<rparr>))
        = Inr a'
      \<and> 0 \<le> MatchAnalysis.overall_score a' \<and> MatchAnalysis.overall_score a' \<le> 100"
  using business_rules_score_range
    [of "\<lambda>x. []"
        "(MatchAnalysis_defaults ''cv'' ''job'')\<lparr>MatchAnalysis.overall_score := 98\<rparr>"
        "CV_post_init
           (CV_defaults\<lparr>CV.experience := Some [mk_Experience ''Developer'' ''Acme'' 240]\<rparr>)"
        "Job_post_init (Job_defaults\<lparr>Job.min_experience_years := 2\<rparr>)"]
  by simp

text \<open>
  The claim as stated fails for a score given above 100 when no rule applies: with no
  mandatory skill missing and no experience against a minimum of 5 years, the engine
  returns the score 150 as it is.
\<close>

theorem business_rules_range_counterexample:
  "apply_business_rules (\<lambda>x. [])
     (MatchAnalysis_post_init
        ((MatchAnalysis_defaults ''cv'' ''job'')\<lparr>MatchAnalysis.overall_score := 150\<rparr>))
     (CV_post_init CV_defaults)
     (Job_post_init (Job_defaults\<lparr>Job.min_experience_years := 5\<rparr>))
   = Inr (MatchAnalysis_post_init
        ((MatchAnalysis_defaults ''cv'' ''job'')\<lparr>MatchAnalysis.overall_score := 150\<rparr>))
   \<and> MatchAnalysis.overall_score
       (MatchAnalysis_post_init
          ((MatchAnalysis_defaults ''cv'' ''job'')\<lparr>MatchAnalysis.overall_score := 150\<rparr>))
     = 150"
  by (simp add: apply_business_rules_def apply_business_rules_ar_def
      generate_recommendations_def Let_def
      mandatory_skills_def skill_names_def total_experience_years_ar_def truthy_list_def
      MatchAnalysis_post_init_def MatchAnalysis_defaults_def CV_post_init_def CV_defaults_def
      Job_post_init_def Job_defaults_def default_list_def)

subsection \<open>MatchingService: the recommendation lines\<close>

lemma truthy_list_given: "truthy_list v = (given_or_empty v \<noteq> [])"
  by (cases v) (simp_all add: truthy_list_def given_or_empty_def)

lemma the_given: "truthy_list v \<Longrightarrow> the v = given_or_empty v"
  by (cases v) (simp_all add: truthy_list_def given_or_empty_def)

lemma skills_line_eq:
  "(case MatchAnalysis.missing_skills a of
      None \<Rightarrow> []
    | Some ms \<Rightarrow> if ms \<noteq> [] then [''Consider learning: '' @ str_join '', '' (take 3 ms)] else [])
   = spec_skills_line a"
  by (cases "MatchAnalysis.missing_skills a") (simp_all add: spec_skills_line_def given_or_empty_def)

text \<open>
  \<open>str.lower\<close> decides the comparison but for case: two strings have the same lower
  form exactly if they are the same but for case by the table of letter pairs.
\<close>

lemma lower_of_upper_letters:
  "map lower_char upper_letters =
     ''abcdefghijklmnopqrstuvwxyz''
     @ [CHR 0xE0, CHR 0xE1, CHR 0xE2, CHR 0xE3, CHR 0xE4, CHR 0xE5, CHR 0xE6, CHR 0xE7,
        CHR 0xE8, CHR 0xE9, CHR 0xEA, CHR 0xEB, CHR 0xEC, CHR 0xED, CHR 0xEE, CHR 0xEF,
        CHR 0xF0, CHR 0xF1, CHR 0xF2, CHR 0xF3, CHR 0xF4, CHR 0xF5, CHR 0xF6,
        CHR 0xF8, CHR 0xF9, CHR 0xFA, CHR 0xFB, CHR 0xFC, CHR 0xFD, CHR 0xFE]"
  by (simp add: upper_letters_def lower_char_def)

lemma case_pairs_lower: "case_pairs = zip upper_letters (map lower_char upper_letters)"
  unfolding lower_of_upper_letters by (simp add: case_pairs_def upper_letters_def)

lemma lower_letters_distinct: "distinct (map lower_char upper_letters)"
  unfolding lower_of_upper_letters by simp

lemma lower_letters_not_upper:
  "list_all (\<lambda>c. c \<notin> set upper_letters) (map lower_char upper_letters)"
  unfolding lower_of_upper_letters by (simp add: upper_letters_def)

lemma lower_char_not_upper: "lower_char c \<notin> set upper_letters"
proof (cases "c \<in> set upper_letters")
  case True
  then have "lower_char c \<in> set (map lower_char upper_letters)" by simp
  then show ?thesis
    using lower_letters_not_upper by (simp only: list_all_iff) blast
next
  case False
  then show ?thesis by (simp add: lower_char_def)
qed

lemma lower_char_idem: "lower_char (lower_char c) = lower_char c"
  using lower_char_not_upper [of c] by (simp add: lower_char_def [of "lower_char c"])

lemma lower_char_inj_upper:
  "a \<in> set upper_letters \<Longrightarrow> b \<in> set upper_letters \<Longrightarrow> lower_char a = lower_char b
     \<Longrightarrow> a = b"
  using lower_letters_distinct by (auto simp: distinct_map inj_on_def)

lemma zip_map_mem: "(a, b) \<in> set (zip xs (map f xs)) \<longleftrightarrow> a \<in> set xs \<and> b = f a"
  by (induction xs) auto

lemma case_pairs_mem: "(a, b) \<in> set case_pairs \<longleftrightarrow> a \<in> set upper_letters \<and> b = lower_char a"
  by (simp add: case_pairs_lower zip_map_mem)

lemma lower_char_eq_iff: "lower_char a = lower_char b \<longleftrightarrow> same_char_but_case a b"
proof
  assume eq: "lower_char a = lower_char b"
  show "same_char_but_case a b"
  proof (cases "a \<in> set upper_letters")
    case a: True
    show ?thesis
    proof (cases "b \<in> set upper_letters")
      case True
      from a True eq have "a = b" by (rule lower_char_inj_upper)
      then show ?thesis by (simp add: same_char_but_case_def)
    next
      case False
      then have "lower_char b = b" by (simp add: lower_char_def)
      with a eq show ?thesis by (simp add: same_char_but_case_def case_pairs_mem)
    qed
  next
    case a: False
    then have la: "lower_char a = a" by (simp add: lower_char_def)
    show ?thesis
    proof (cases "b \<in> set upper_letters")
      case True
      with la eq show ?thesis by (simp add: same_char_but_case_def case_pairs_mem)
    next
      case False
      then have "lower_char b = b" by (simp add: lower_char_def)
      with la eq show ?thesis by (simp add: same_char_but_case_def)
    qed
  qed
next
  assume "same_char_but_case a b"
  then show "lower_char a = lower_char b"
    by (auto simp: same_char_but_case_def case_pairs_mem lower_char_idem)
qed

lemma map_eq_list_all2: "map f xs = map f ys \<longleftrightarrow> list_all2 (\<lambda>x y. f x = f y) xs ys"
proof (induction xs arbitrary: ys)
  case Nil
  show ?case by auto
next
  case (Cons x xs)
  then show ?case by (cases ys) auto
qed

lemma str_lower_eq_iff: "str_lower s = str_lower t \<longleftrightarrow> same_but_case s t"
  by (simp add: str_lower_def same_but_case_def map_eq_list_all2 lower_char_eq_iff)

lemma str_lower_covered:
  "str_lower req \<in> set (map (\<lambda>e. str_lower (Education.degree e)) edus)
     \<longleftrightarrow> list_ex (\<lambda>e. same_but_case req (Education.degree e)) edus"
  by (auto simp: list_ex_iff str_lower_eq_iff)

lemma uncovered_education_no_requirement:
  "given_or_empty (Job.required_education job) = [] \<Longrightarrow> uncovered_education cv job = []"
  by (simp add: uncovered_education_def)

lemma education_branch_eq:
  assumes "truthy_list (Job.required_education job)" "truthy_list (CV.education cv)"
  shows "filter (\<lambda>edu. str_lower edu
                   \<notin> set (map (\<lambda>edu. str_lower (Education.degree edu)) (the (CV.education cv))))
           (the (Job.required_education job))
         = uncovered_education cv job"
  using assms by (simp only: uncovered_education_def the_given str_lower_covered)

lemma education_branch_image_eq:
  assumes "truthy_list (Job.required_education job)" "truthy_list (CV.education cv)"
  shows "filter (\<lambda>edu. str_lower edu
                   \<notin> (\<lambda>edu. str_lower (Education.degree edu)) ` set (the (CV.education cv)))
           (the (Job.required_education job))
         = uncovered_education cv job"
  using education_branch_eq [OF assms] by simp

lemma generate_recommendations_lines:
  "generate_recommendations fmt cv job a
     = spec_skills_line a @ spec_gap_line fmt a
       @ (if given_or_empty (CV.education cv) = [] then [] else spec_education_line cv job)"
proof (cases "truthy_list (Job.required_education job) \<and> truthy_list (CV.education cv)")
  case True
  then show ?thesis
    by (cases "uncovered_education cv job")
      (simp_all add: generate_recommendations_def Let_def skills_line_eq
        education_branch_image_eq spec_gap_line_def spec_education_line_def
        truthy_list_given [symmetric])
next
  case False
  then have "given_or_empty (CV.education cv) = [] \<or> uncovered_education cv job = []"
    using uncovered_education_no_requirement [of job cv] by (auto simp: truthy_list_given)
  with False show ?thesis
    by (auto simp: generate_recommendations_def Let_def skills_line_eq spec_gap_line_def
        spec_education_line_def)
qed

lemma generate_recommendations_score:
  "generate_recommendations fmt cv job (a\<lparr>MatchAnalysis.overall_score := x\<rparr>)
     = generate_recommendations fmt cv job a"
  by (simp add: generate_recommendations_lines spec_skills_line_def spec_gap_line_def)

text \<open>
  The engine appends the generated lines to the recommendations the analysis holds.
\<close>

lemma apply_business_rules_recommendations:
  assumes "MatchAnalysis.recommendations a = Some recs"
  shows "\<exists>a'. apply_business_rules_ar ar fmt a cv job = Inr a' \<and>
          MatchAnalysis.recommendations a' = Some (recs @ generate_recommendations fmt cv job a)"
  using assms
  by (simp add: apply_business_rules_ar_def Let_def generate_recommendations_score)

text \<open>
  C6, as amended. The recommendation lines the engine generates are, in this order, the
  missing-skills line and the experience-gap line where those apply, and then, if the CV
  lists at least one education entry and its degree names, compared case-insensitively,
  do not cover all of the job's required education, exactly one line that names the
  first uncovered requirement. If the required education is all covered, or the job
  requires none, or the CV lists no education entry, there is no such line.
\<close>

theorem education_recommendation_line:
  "(\<exists>a'. apply_business_rules_ar ar fmt (MatchAnalysis_post_init a) cv job = Inr a'
         \<and> MatchAnalysis.recommendations a'
             = Some (given_or_empty (MatchAnalysis.recommendations a)
                     @ generate_recommendations fmt cv job (MatchAnalysis_post_init a)))
   \<and> generate_recommendations fmt cv job a
     = spec_skills_line a @ spec_gap_line fmt a
       @ (if given_or_empty (CV.education cv) = [] then [] else spec_education_line cv job)
   \<and> (given_or_empty (CV.education cv) \<noteq> [] \<and> uncovered_education cv job = u # us
        \<longrightarrow> generate_recommendations fmt cv job a
              = spec_skills_line a @ spec_gap_line fmt a @ [''Consider pursuing: '' @ u])
   \<and> (given_or_empty (CV.education cv) = [] \<or> uncovered_education cv job = []
        \<longrightarrow> generate_recommendations fmt cv job a = spec_skills_line a @ spec_gap_line fmt a)"
proof -
  have "MatchAnalysis.recommendations (MatchAnalysis_post_init a)
          = Some (given_or_empty (MatchAnalysis.recommendations a))"
    by (rule MatchAnalysis_post_init_lists)
  from apply_business_rules_recommendations [OF this, of ar fmt cv job]
  have "\<exists>a'. apply_business_rules_ar ar fmt (MatchAnalysis_post_init a) cv job = Inr a'
         \<and> MatchAnalysis.recommendations a'
             = Some (given_or_empty (MatchAnalysis.recommendations a)
                     @ generate_recommendations fmt cv job (MatchAnalysis_post_init a))" .
  moreover have "generate_recommendations fmt cv job a
     = spec_skills_line a @ spec_gap_line fmt a
       @ (if given_or_empty (CV.education cv) = [] then [] else spec_education_line cv job)"
    by (rule generate_recommendations_lines)
  ultimately show ?thesis
    by (auto simp: spec_education_line_def)
qed

text \<open>
  A CV with the degrees "Bachelor of Science" and "Graduacao" (written with c cedilla and
  a tilde, the code points 0xE7 and 0xE3) covers the two requirements written in
  capitals; the first requirement that is not covered is named.
\<close>

theorem education_recommendation_line_witness:
  "generate_recommendations (\<lambda>x. [])
     (CV_post_init
        (CV_defaults\<lparr>CV.education :=
           Some [mk_Education ''Bachelor of Science'' ''MIT'' ''Computer Science'',
                 mk_Education (''Gradua'' @ [CHR 0xE7, CHR 0xE3] @ ''o'') ''USP'' ''Direito'']\<rparr>))
     (Job_post_init
        (Job_defaults\<lparr>Job.required_education :=
           Some [''BACHELOR OF SCIENCE'', ''GRADUA'' @ [CHR 0xC7, CHR 0xC3] @ ''O'',
                 ''Master of Science'', ''PhD'']\<rparr>))
     (MatchAnalysis_post_init
        ((MatchAnalysis_defaults ''cv'' ''job'')\<lparr>MatchAnalysis.missing_skills :=
           Some [''Docker'', ''Go'', ''Rust'', ''Kafka'']\<rparr>))
   = [''Consider learning: Docker, Go, Rust'', ''Consider pursuing: Master of Science'']"
  using education_recommendation_line
    [where ar = exact_arith and fmt = "\<lambda>x. []"
       and cv = "CV_post_init
           (CV_defaults\<lparr>CV.education :=
              Some [mk_Education ''Bachelor of Science'' ''MIT'' ''Computer Science'',
                    mk_Education (''Gradua'' @ [CHR 0xE7, CHR 0xE3] @ ''o'') ''USP'' ''Direito'']\<rparr>)"
       and job = "Job_post_init
           (Job_defaults\<lparr>Job.required_education :=
              Some [''BACHELOR OF SCIENCE'', ''GRADUA'' @ [CHR 0xC7, CHR 0xC3] @ ''O'',
                    ''Master of Science'', ''PhD'']\<rparr>)"
       and a = "MatchAnalysis_post_init
           ((MatchAnalysis_defaults ''cv'' ''job'')\<lparr>MatchAnalysis.missing_skills :=
              Some [''Docker'', ''Go'', ''Rust'', ''Kafka'']\<rparr>)"
       and u = "''Master of Science''" and us = "[''PhD'']"]
  by (simp add: spec_skills_line_def spec_gap_line_def spec_education_line_def
      uncovered_education_def same_but_case_def same_char_but_case_def case_pairs_def
      given_or_empty_def
      CV_post_init_def CV_defaults_def Job_post_init_def Job_defaults_def
      MatchAnalysis_post_init_def MatchAnalysis_defaults_def default_list_def mk_Education_def)

text \<open>
  The claim as stated fails for a CV that lists no education entry: the job requires a
  degree that the CV's degree names (there are none) do not cover, and the engine
  generates no line.
\<close>

theorem education_recommendation_counterexample:
  "uncovered_education (CV_post_init CV_defaults)
     (Job_post_init (Job_defaults\<lparr>Job.required_education := Some [''Bachelor of Science'']\<rparr>))
   = [''Bachelor of Science'']
   \<and> generate_recommendations (\<lambda>x. [])
       (CV_post_init CV_defaults)
       (Job_post_init (Job_defaults\<lparr>Job.required_education := Some [''Bachelor of Science'']\<rparr>))
       (MatchAnalysis_post_init (MatchAnalysis_defaults ''cv'' ''job''))
     = []"
  by (simp add: generate_recommendations_def Let_def truthy_list_def uncovered_education_def
      given_or_empty_def CV_post_init_def CV_defaults_def Job_post_init_def Job_defaults_def
      MatchAnalysis_post_init_def MatchAnalysis_defaults_def default_list_def)

subsection \<open>GeminiAIService: the payload of a response\<close>

lemma str_find_takeWhile:
  "str_find s c = (if c \<in> set s then int (length (takeWhile (\<lambda>x. x \<noteq> c) s)) else - 1)"
  by (induction s) (auto simp: Let_def)

lemma str_rfind_takeWhile:
  "str_rfind s c =
     (if c \<in> set s then int (length s) - 1 - int (length (takeWhile (\<lambda>x. x \<noteq> c) (rev s)))
      else - 1)"
  by (simp add: str_rfind_def str_find_takeWhile Let_def)

lemma drop_end_take:
  "drop_end P xs = take (length xs - length (takeWhile P (rev xs))) xs"
proof -
  have "dropWhile P (rev xs) = drop (length (takeWhile P (rev xs))) (rev xs)"
    by (rule dropWhile_eq_drop)
  then show ?thesis
    by (simp add: drop_end_def rev_drop)
qed

lemma dropWhile_take:
  "dropWhile Q (take m xs) = take (m - length (takeWhile Q xs)) (dropWhile Q xs)"
proof (induction xs arbitrary: m)
  case Nil
  then show ?case by simp
next
  case (Cons x xs)
  then show ?case by (cases m) auto
qed

lemma length_takeWhile_prefix:
  "length (takeWhile P ys) = min (length (takeWhile P (ys @ zs))) (length ys)"
  by (induction ys) auto

lemma length_takeWhile_rev_dropWhile:
  "length (takeWhile P (rev (dropWhile Q xs)))
     = min (length (takeWhile P (rev xs))) (length (dropWhile Q xs))"
proof -
  have "rev xs = rev (dropWhile Q xs) @ rev (takeWhile Q xs)"
    by (metis rev_append takeWhile_dropWhile_id)
  then show ?thesis
    using length_takeWhile_prefix [of P "rev (dropWhile Q xs)" "rev (takeWhile Q xs)"] by simp
qed

lemma dropWhile_drop_end: "dropWhile Q (drop_end P xs) = drop_end P (dropWhile Q xs)"
proof -
  have len: "length (dropWhile Q xs) = length xs - length (takeWhile Q xs)"
    by (simp add: dropWhile_eq_drop)
  show ?thesis
    unfolding drop_end_take [of P xs] drop_end_take [of P "dropWhile Q xs"]
      dropWhile_take length_takeWhile_rev_dropWhile len
    by (rule arg_cong [where f = "\<lambda>n. take n (dropWhile Q xs)"]) arith
qed

lemma dropWhile_absorb:
  "(\<And>x. P x \<Longrightarrow> Q x) \<Longrightarrow> dropWhile Q (dropWhile P xs) = dropWhile Q xs"
  by (induction xs) auto

lemma drop_end_absorb:
  "(\<And>x. P x \<Longrightarrow> Q x) \<Longrightarrow> drop_end Q (drop_end P xs) = drop_end Q xs"
  by (simp add: drop_end_def dropWhile_absorb)

lemma isspace_not_brace: "py_isspace c \<Longrightarrow> c \<noteq> CHR ''{'' \<and> c \<noteq> CHR ''}''"
  by (auto simp: py_isspace_def)

lemma str_strip_drop_end: "str_strip s = drop_end py_isspace (dropWhile py_isspace s)"
  by (simp add: str_strip_def drop_end_def)

lemma spec_payload_strip: "spec_payload (str_strip s) = spec_payload s"
proof -
  have "dropWhile (\<lambda>c. c \<noteq> CHR ''{'') (str_strip s)
          = drop_end py_isspace (dropWhile (\<lambda>c. c \<noteq> CHR ''{'') s)"
    using isspace_not_brace
    by (simp add: str_strip_drop_end dropWhile_drop_end dropWhile_absorb)
  then show ?thesis
    using isspace_not_brace by (simp add: spec_payload_def drop_end_absorb)
qed

lemma set_dropWhile_keeps: "\<not> P c \<Longrightarrow> c \<in> set (dropWhile P xs) \<longleftrightarrow> c \<in> set xs"
  by (induction xs) auto

lemma set_str_strip_keeps: "\<not> py_isspace c \<Longrightarrow> c \<in> set (str_strip s) \<longleftrightarrow> c \<in> set s"
  by (simp add: str_strip_def set_dropWhile_keeps)

lemma brace_not_isspace: "\<not> py_isspace CHR ''{''" "\<not> py_isspace CHR ''}''"
  by (simp_all add: py_isspace_def)

lemma has_braces_strip: "has_braces (str_strip s) = has_braces s"
  by (simp add: has_braces_def set_str_strip_keeps brace_not_isspace)

lemma length_takeWhile_less: "x \<in> set xs \<Longrightarrow> \<not> P x \<Longrightarrow> length (takeWhile P xs) < length xs"
  by (induction xs) auto

lemma drop_take_drop_end:
  "drop (length (takeWhile Q xs)) (take (length xs - length (takeWhile P (rev xs))) xs)
     = drop_end P (dropWhile Q xs)"
proof -
  let ?m = "length xs - length (takeWhile P (rev xs))"
  have "drop (length (takeWhile Q xs)) (take ?m xs)
          = take (?m - length (takeWhile Q xs)) (drop (length (takeWhile Q xs)) xs)"
    by (rule drop_take)
  also have "\<dots> = take (?m - length (takeWhile Q xs)) (dropWhile Q xs)"
    by (simp only: dropWhile_eq_drop [symmetric])
  also have "\<dots> = dropWhile Q (take ?m xs)"
    by (rule dropWhile_take [symmetric])
  also have "\<dots> = dropWhile Q (drop_end P xs)"
    by (simp only: drop_end_take [symmetric])
  also have "\<dots> = drop_end P (dropWhile Q xs)"
    by (rule dropWhile_drop_end)
  finally show ?thesis .
qed

lemma extract_json_no_braces:
  "\<not> has_braces s \<Longrightarrow> extract_json_from_response s = Inl AIServiceError"
  by (auto simp: extract_json_from_response_def has_braces_def Let_def str_find_takeWhile
      str_rfind_takeWhile)

lemma extract_json_payload:
  assumes "has_braces s"
  shows "extract_json_from_response s = Inr (spec_payload s)"
proof -
  let ?k = "length (takeWhile (\<lambda>x. x \<noteq> CHR ''}'') (rev s))"
  let ?n = "length (takeWhile (\<lambda>x. x \<noteq> CHR ''{'') s)"
  from assms have mem: "CHR ''{'' \<in> set s" "CHR ''}'' \<in> set s"
    by (simp_all add: has_braces_def)
  have "?k \<le> length s"
    using length_takeWhile_le [of "\<lambda>x. x \<noteq> CHR ''}''" "rev s"] by simp
  then have j: "nat (int (length s) - 1 - int ?k + 1) = length s - ?k"
    by simp
  have "extract_json_from_response s
          = (if int (length s) - 1 - int ?k = - 1 then Inl AIServiceError
             else Inr (drop ?n (take (length s - ?k) s)))"
    using mem j
    by (simp add: extract_json_from_response_def Let_def str_find_takeWhile str_rfind_takeWhile
        str_slice_def)
  moreover have "?k < length s"
    using mem length_takeWhile_less [of "CHR ''}''" "rev s" "\<lambda>x. x \<noteq> CHR ''}''"] by simp
  moreover have "drop ?n (take (length s - ?k) s) = spec_payload s"
    unfolding spec_payload_def by (rule drop_take_drop_end)
  ultimately show ?thesis by simp
qed

lemma extract_cv_data_error: "extract_cv_data loads now response rawtext = Inl e \<Longrightarrow> e = AIServiceError"
  by (auto simp: extract_cv_data_def split: sum.splits if_splits)

lemma extract_cv_data_no_braces:
  assumes "\<not> has_braces response"
  shows "extract_cv_data loads now response rawtext = Inl AIServiceError"
proof -
  from assms have "extract_json_from_response (str_strip response) = Inl AIServiceError"
    by (simp add: extract_json_no_braces has_braces_strip)
  then show ?thesis
    by (simp add: extract_cv_data_def extract_cv_data_try_def Let_def)
qed

lemma extract_cv_data_parse_failure:
  assumes "has_braces response" "loads (spec_payload response) = Inl e"
  shows "extract_cv_data loads now response rawtext = Inl AIServiceError"
proof -
  from assms(1) have "extract_json_from_response (str_strip response) = Inr (spec_payload response)"
    using extract_json_payload [of "str_strip response"]
    by (simp add: has_braces_strip spec_payload_strip)
  with assms(2) show ?thesis
    by (simp add: extract_cv_data_def extract_cv_data_try_def Let_def)
qed

text \<open>
  C4. For every response text: if the text has no \<open>{\<close> or no \<open>}\<close>, the extraction fails
  with \<open>AIServiceError\<close> whatever the parser would do, so before any parse. Otherwise the
  payload handed to the parser is the text from the first \<open>{\<close> to the last \<open>}\<close>, and if
  the parser rejects it the operation fails with the same \<open>AIServiceError\<close>. A failure
  returns no entity, and every failure of the operation is an \<open>AIServiceError\<close>.
\<close>

theorem extract_cv_data_malformed:
  "(\<not> has_braces response
      \<longrightarrow> extract_json_from_response (str_strip response) = Inl AIServiceError
          \<and> extract_cv_data loads now response rawtext = Inl AIServiceError)
   \<and> (has_braces response
      \<longrightarrow> extract_json_from_response (str_strip response) = Inr (spec_payload response)
          \<and> ((\<exists>e. loads (spec_payload response) = Inl e)
               \<longrightarrow> extract_cv_data loads now response rawtext = Inl AIServiceError))
   \<and> (\<forall>e. extract_cv_data loads now response rawtext = Inl e \<longrightarrow> e = AIServiceError)"
proof (intro conjI impI allI)
  assume "\<not> has_braces response"
  then show "extract_json_from_response (str_strip response) = Inl AIServiceError"
    by (simp add: extract_json_no_braces has_braces_strip)
next
  assume "\<not> has_braces response"
  then show "extract_cv_data loads now response rawtext = Inl AIServiceError"
    by (rule extract_cv_data_no_braces)
next
  assume "has_braces response"
  then show "extract_json_from_response (str_strip response) = Inr (spec_payload response)"
    using extract_json_payload [of "str_strip response"]
    by (simp add: has_braces_strip spec_payload_strip)
next
  assume "has_braces response" "\<exists>e. loads (spec_payload response) = Inl e"
  then show "extract_cv_data loads now response rawtext = Inl AIServiceError"
    using extract_cv_data_parse_failure by blast
next
  fix e
  assume "extract_cv_data loads now response rawtext = Inl e"
  then show "e = AIServiceError"
    by (rule extract_cv_data_error)
qed

theorem extract_cv_data_malformed_witness:
  "extract_cv_data (\<lambda>p. Inl JSONDecodeError) 0 ''Sorry, no data.'' ''cv text'' = Inl AIServiceError
   \<and> extract_json_from_response (str_strip ''  Result: {broken} ok  '') = Inr ''{broken}''
   \<and> extract_cv_data (\<lambda>p. Inl JSONDecodeError) 0 ''  Result: {broken} ok  '' ''cv text''
       = Inl AIServiceError"
  using
    extract_cv_data_malformed
      [of "''Sorry, no data.''" "\<lambda>p. Inl JSONDecodeError" 0 "''cv text''"]
    extract_cv_data_malformed
      [of "''  Result: {broken} ok  ''" "\<lambda>p. Inl JSONDecodeError" 0 "''cv text''"]
  by (simp add: has_braces_def spec_payload_def drop_end_def)

subsection \<open>Converters: malformed sub-records\<close>

lemma SkillLevel_of_valid: "s \<in> set valid_levels \<Longrightarrow> \<exists>l. SkillLevel_of s = Inr l"
  by (auto simp: valid_levels_def SkillLevel_of_def)

lemma SkillLevel_of_defaulted:
  "\<exists>l. SkillLevel_of (if s \<notin> set valid_levels then ''beginner'' else s) = Inr l"
proof (cases "s \<in> set valid_levels")
  case True
  then show ?thesis using SkillLevel_of_valid by simp
next
  case False
  then show ?thesis by (simp add: SkillLevel_of_def)
qed

text \<open>
  The only exception a loop body of the converters raises is \<open>AttributeError\<close>: from
  \<open>.get\<close> on an element that is no \<open>dict\<close>, or from \<open>.lower()\<close> on a level that is no
  \<open>str\<close>. The handlers for \<open>ValueError\<close> and \<open>TypeError\<close> never run.
\<close>

lemma convert_skill_error: "convert_skill x = Inl e \<Longrightarrow> e = AttributeError"
proof (cases x)
  case (PDict d)
  show "convert_skill x = Inl e \<Longrightarrow> e = AttributeError"
  proof (cases "dict_get d ''level'' (PStr ''beginner'')")
    case (PStr s)
    obtain l where "SkillLevel_of (if str_lower s \<notin> set valid_levels then ''beginner''
                                   else str_lower s) = Inr l"
      using SkillLevel_of_defaulted by blast
    then show "convert_skill x = Inl e \<Longrightarrow> e = AttributeError"
      using PDict PStr by (simp add: convert_skill_def py_lower_def Let_def)
  qed (use PDict in \<open>simp_all add: convert_skill_def py_lower_def\<close>)
qed (simp_all add: convert_skill_def)

lemma convert_required_skill_error: "convert_required_skill x = Inl e \<Longrightarrow> e = AttributeError"
proof (cases x)
  case (PDict d)
  show "convert_required_skill x = Inl e \<Longrightarrow> e = AttributeError"
  proof (cases "dict_get d ''required_level'' (PStr ''beginner'')")
    case (PStr s)
    obtain l where "SkillLevel_of (if str_lower s \<notin> set valid_levels then ''beginner''
                                   else str_lower s) = Inr l"
      using SkillLevel_of_defaulted by blast
    then show "convert_required_skill x = Inl e \<Longrightarrow> e = AttributeError"
      using PDict PStr by (simp add: convert_required_skill_def py_lower_def Let_def)
  qed (use PDict in \<open>simp_all add: convert_required_skill_def py_lower_def\<close>)
qed (simp_all add: convert_required_skill_def)

lemma convert_preferred_skill_error: "convert_preferred_skill x = Inl e \<Longrightarrow> e = AttributeError"
proof (cases x)
  case (PDict d)
  show "convert_preferred_skill x = Inl e \<Longrightarrow> e = AttributeError"
  proof (cases "dict_get d ''required_level'' (PStr ''beginner'')")
    case (PStr s)
    obtain l where "SkillLevel_of (if str_lower s \<notin> set valid_levels then ''beginner''
                                   else str_lower s) = Inr l"
      using SkillLevel_of_defaulted by blast
    then show "convert_preferred_skill x = Inl e \<Longrightarrow> e = AttributeError"
      using PDict PStr by (simp add: convert_preferred_skill_def py_lower_def Let_def)
  qed (use PDict in \<open>simp_all add: convert_preferred_skill_def py_lower_def\<close>)
qed (simp_all add: convert_preferred_skill_def)

lemma resolve_level_error:
  assumes "resolve_level v = Inl e"
  shows "e = AttributeError"
proof (cases v)
  case (PStr s)
  show ?thesis
  proof (cases "str_lower s \<in> set valid_levels")
    case True
    then obtain l where "SkillLevel_of (str_lower s) = Inr l"
      using SkillLevel_of_valid by blast
    with assms PStr True show ?thesis
      by (simp add: resolve_level_def py_lower_def split: if_splits)
  next
    case False
    with assms PStr show ?thesis
      by (simp add: resolve_level_def py_lower_def split: if_splits)
  qed
qed (use assms in \<open>auto simp: resolve_level_def py_lower_def split: if_splits\<close>)

lemma convert_skill_match_error: "convert_skill_match x = Inl e \<Longrightarrow> e = AttributeError"
  by (cases x)
    (auto simp: convert_skill_match_def Let_def split: sum.splits dest: resolve_level_error)

lemma for_each_try_never_drops:
  assumes "\<And>x e. body x = Inl e \<Longrightarrow> e = AttributeError"
  shows "for_each_try body xs acc = for_each body xs acc"
proof (induction xs arbitrary: acc)
  case Nil
  show ?case by simp
next
  case (Cons x xs)
  show ?case
  proof (cases "body x")
    case (Inl e)
    with assms have "e = AttributeError" by blast
    with Inl show ?thesis by simp
  next
    case (Inr y)
    with Cons show ?thesis by simp
  qed
qed

lemma for_each_length:
  "for_each body xs acc = Inr ys \<Longrightarrow> length ys = length acc + length xs"
proof (induction xs arbitrary: acc)
  case Nil
  then show ?case by simp
next
  case (Cons x xs)
  then show ?case by (cases "body x") auto
qed

text \<open>
  So the skills loop drops no element whatever the payload is: a conversion that returns
  has kept every skill sub-record, and a skill sub-record that fails ends the conversion.
\<close>

lemma convert_to_cv_entity_keeps_all_skills:
  assumes "convert_to_cv_entity now (PDict d) rawtext = Inr cv"
    and "py_iter (dict_get d ''skills'' (PList [])) = Inr items"
  shows "length (CV_dyn.skills cv) = length items"
proof -
  from assms obtain sks where sks: "for_each_try convert_skill items [] = Inr sks"
    and cv: "CV_dyn.skills cv = sks"
    by (auto simp: convert_to_cv_entity_def CV_dyn_post_init_def split: sum.splits)
  from sks have "for_each convert_skill items [] = Inr sks"
    using for_each_try_never_drops [of convert_skill items "[]"] convert_skill_error by simp
  then show ?thesis
    using for_each_length cv by fastforce
qed

text \<open>
  What the level fields do for a text value or an absent key: the level of a CV skill
  resolves case-insensitively and defaults to \<open>beginner\<close>; a level of a skill match
  that is absent, empty or not recognised is left absent.
\<close>

lemma convert_skill_text_level:
  assumes "map_of d ''level'' = None \<or> (\<exists>s. map_of d ''level'' = Some (PStr s))"
  shows "\<exists>sk. convert_skill (PDict d) = Inr sk \<and>
           Skill_dyn.level sk =
             (case map_of d ''level'' of
                Some (PStr s) \<Rightarrow>
                  (if str_lower s = ''intermediate'' then INTERMEDIATE
                   else if str_lower s = ''advanced'' then ADVANCED
                   else if str_lower s = ''expert'' then EXPERT
                   else BEGINNER)
              | _ \<Rightarrow> BEGINNER)"
  using assms
  by (auto simp: convert_skill_def dict_get_def py_lower_def Let_def valid_levels_def
      SkillLevel_of_def str_lower_def lower_char_def upper_letters_def)

lemma resolve_level_text:
  "resolve_level PNone = Inr None"
  "resolve_level (PStr s) =
     Inr (if str_lower s = ''beginner'' then Some BEGINNER
          else if str_lower s = ''intermediate'' then Some INTERMEDIATE
          else if str_lower s = ''advanced'' then Some ADVANCED
          else if str_lower s = ''expert'' then Some EXPERT
          else None)"
  by (auto simp: resolve_level_def py_truthy_def py_lower_def valid_levels_def SkillLevel_of_def
      str_lower_def)

text \<open>
  C3. The claim is that a malformed sub-record is dropped and the conversion goes on to
  return a partial entity. The code ends the whole conversion with \<open>AttributeError\<close>
  instead: for an education entry that is a text and not an object (the loops over
  education and experience have no \<open>try\<close>), for a skill whose level is a number (the
  \<open>except\<close> clause of the skills loop names \<open>ValueError\<close> and \<open>TypeError\<close> only), and
  for a skill match whose level is a number. \<open>extract_cv_data\<close> then fails with
  \<open>AIServiceError\<close> and returns no entity.
\<close>

theorem malformed_subrecord_aborts_conversion:
  "convert_to_cv_entity now
     (PDict [(''name'', PStr ''Ada''),
             (''skills'', PList [PDict [(''name'', PStr ''Python''), (''level'', PStr ''expert'')]]),
             (''education'', PList [PStr ''BSc Computer Science''])])
     rawtext
   = Inl AttributeError
   \<and> convert_to_cv_entity now
     (PDict [(''name'', PStr ''Ada''),
             (''skills'', PList [PDict [(''name'', PStr ''Python''), (''level'', PInt 3)],
                                 PDict [(''name'', PStr ''SQL''), (''level'', PStr ''expert'')]])])
     rawtext
   = Inl AttributeError
   \<and> convert_to_match_analysis now
     (PDict [(''overall_score'', PInt 80),
             (''skill_matches'',
                PList [PDict [(''skill_name'', PStr ''Python''), (''cv_skill_level'', PInt 3)]])])
     cvid jobid
   = Inl AttributeError
   \<and> extract_cv_data
     (\<lambda>p. Inr (PDict [(''name'', PStr ''Ada''),
                      (''education'', PList [PStr ''BSc Computer Science''])]))
     now ''{...}'' rawtext
   = Inl AIServiceError"
  by (simp add: convert_to_cv_entity_def convert_to_match_analysis_def convert_skill_def
      convert_education_def convert_skill_match_def resolve_level_def py_truthy_def
      dict_get_def py_iter_def py_lower_def Let_def valid_levels_def SkillLevel_of_def
      str_lower_def lower_char_def upper_letters_def
      extract_cv_data_def extract_cv_data_try_def extract_json_from_response_def
      str_strip_def py_isspace_def str_rfind_def str_slice_def)

text \<open>
  C5. The claim is that a missing or unrecognised level of a CV skill or of a job
  requirement gives \<open>beginner\<close>, with the record kept and no error. For a level that is
  \<open>null\<close> in the payload the code calls \<open>.lower()\<close> on \<open>None\<close>: the \<open>AttributeError\<close> is
  not caught by the loop and ends the whole conversion.
\<close>

theorem null_level_aborts_conversion:
  "convert_skill (PDict [(''name'', PStr ''Python''), (''level'', PNone)]) = Inl AttributeError
   \<and> convert_required_skill (PDict [(''skill'', PStr ''Python''), (''required_level'', PNone)])
       = Inl AttributeError
   \<and> convert_to_cv_entity now
       (PDict [(''name'', PStr ''Ada''),
               (''skills'', PList [PDict [(''name'', PStr ''Python''), (''level'', PNone)]])])
       rawtext
     = Inl AttributeError
   \<and> convert_to_job_entity now
       (PDict [(''title'', PStr ''Engineer''),
               (''required_skills'',
                  PList [PDict [(''skill'', PStr ''Python''), (''required_level'', PNone)]])])
       descr
     = Inl AttributeError"
  by (simp add: convert_to_cv_entity_def convert_to_job_entity_def convert_skill_def
      convert_required_skill_def dict_get_def py_iter_def py_lower_def)

end
